theory Spec2Isabelle
  imports Complex_Main "HOL-Library.Sublist" "HOL-Library.Log_Nat"
begin

section \<open>Data model (src/types.ts)\<close>

text \<open>
  Strings are \<open>char list\<close>. The enumerated string types of types.ts are datatypes,
  each with the function that gives the string a template literal prints for it.
\<close>

datatype Exam = JEE | NEET

datatype Subject = Physics | Chemistry | Maths | Biology

datatype DifficultyLevel = Level3_Boards | Level2_Mains_NEET | Level1_Advanced

fun Exam_str :: "Exam \<Rightarrow> string" where
  "Exam_str JEE = ''JEE''"
| "Exam_str NEET = ''NEET''"

fun Subject_str :: "Subject \<Rightarrow> string" where
  "Subject_str Physics = ''Physics''"
| "Subject_str Chemistry = ''Chemistry''"
| "Subject_str Maths = ''Maths''"
| "Subject_str Biology = ''Biology''"

fun DifficultyLevel_str :: "DifficultyLevel \<Rightarrow> string" where
  "DifficultyLevel_str Level3_Boards = ''Level 3: Boards''"
| "DifficultyLevel_str Level2_Mains_NEET = ''Level 2: Mains/NEET''"
| "DifficultyLevel_str Level1_Advanced = ''Level 1: Advanced''"

record QuizConfig =
  exam :: Exam
  subject :: Subject
  topic :: string
  level :: DifficultyLevel
  mergeTopic :: "string option"

record ResourceLink =
  title :: string
  url :: string

record Question =
  question :: string
  options :: "string list"
  correctAnswerIndex :: int
  explanation :: string
  sourceHint :: "string option"
  resourceLink :: "ResourceLink option"

text \<open>
  An entry of the answer array \<open>(number | null)[]\<close>. Reading the array beyond its
  length gives \<open>undefined\<close>, and \<open>handleQuizCompletion\<close> stores \<open>answers[i]!\<close> in
  \<open>userAnswerIndex\<close> before it filters, so that field holds one of the three.
\<close>

datatype answer = Undefined | Null | Num int

record IncorrectAnswer = Question +
  userAnswerIndex :: answer

record QuizHistoryItem =
  id :: int
  config :: QuizConfig
  score :: int
  totalQuestions :: int
  percentage :: "int option"
  date :: int

datatype QuizState = idle | loading | active | finished

section \<open>JavaScript strings, thrown values and the runtime\<close>

text \<open>
  A string of the program is the list of the bytes of its UTF-8 encoding.

  \<open>s.includes(sub)\<close>: \<open>sub\<close> occurs in \<open>s\<close> as a contiguous block. (The name
  \<open>includes\<close> is a keyword of Isabelle, hence \<open>str_includes\<close>; for the same reason a
  parameter \<open>config\<close> of the source is written \<open>cfg\<close>, \<open>config\<close> being a field name.)
\<close>

fun str_includes :: "string \<Rightarrow> string \<Rightarrow> bool" where
  "str_includes [] sub = (sub = [])"
| "str_includes (c # cs) sub = (prefix sub (c # cs) \<or> str_includes cs sub)"

text \<open>\<open>xs.join(sep)\<close> on an array of strings.\<close>

fun join :: "string \<Rightarrow> string list \<Rightarrow> string" where
  "join sep [] = []"
| "join sep [x] = x"
| "join sep (x # y # ys) = x @ sep @ join sep (y # ys)"

text \<open>
  What a \<open>catch\<close> clause receives: an instance of \<open>Error\<close> (with its \<open>name\<close> and
  its \<open>message\<close>), or any other value, kept as the string \<open>String(value)\<close> gives.
\<close>

datatype thrown = JsError string string | NonError string

abbreviation new_Error :: "string \<Rightarrow> thrown" where
  "new_Error msg \<equiv> JsError ''Error'' msg"

text \<open>
  What \<open>JSON.parse\<close> returns, as the code reads it through the cast \<open>as Question[]\<close>:
  a value that is no array, or an array whose elements are taken as questions.
\<close>

datatype quizData = NotAnArray | ArrayOf "Question list"

text \<open>
  The built-in functions of the language the service calls. They are not code of the
  repository and are parameters of the model: \<open>toLowerCase\<close> stands for
  \<open>String.prototype.toLowerCase\<close> (the case mapping of Unicode), \<open>trim\<close> for
  \<open>String.prototype.trim\<close> (which strips every white space and line terminator of
  Unicode), and \<open>JSON_parse\<close> for \<open>JSON.parse\<close>, where \<open>Inl msg\<close> is the
  \<open>SyntaxError\<close> it throws. Every theorem below holds for whatever functions stand here.
\<close>

record runtime =
  toLowerCase :: "string \<Rightarrow> string"
  trim :: "string \<Rightarrow> string"
  JSON_parse :: "string \<Rightarrow> string + quizData"

section \<open>Prompt builder (src/services/geminiService.ts, generateQuizPrompt)\<close>

text \<open>
  \<open>ans.options[i]\<close> inside a template literal: the option text when \<open>i\<close> is an index
  of the array, the text \<open>undefined\<close> otherwise.
\<close>

fun option_text :: "string list \<Rightarrow> answer \<Rightarrow> string" where
  "option_text opts (Num i) =
     (if 0 \<le> i \<and> i < int (length opts) then opts ! nat i else ''undefined'')"
| "option_text opts Null = ''undefined''"
| "option_text opts Undefined = ''undefined''"

definition mistake_line :: "IncorrectAnswer \<Rightarrow> string" where
  \<open>mistake_line ans =
     ''- Question: "'' @ question ans @ ''"\<newline>  My incorrect answer: "''
       @ option_text (options ans) (userAnswerIndex ans)
       @ ''"\<newline>  Correct answer: "''
       @ option_text (options ans) (Num (correctAnswerIndex ans)) @ ''"''\<close>

definition level_rules :: string where
  \<open>level_rules =
     ''\<newline>- For 'Level 1: Advanced', the questions should be highly challenging, multi-concept, and analytical, similar to those in the JEE Advanced paper.\<newline>- For 'Level 2: Mains/NEET', questions should test core concepts with medium difficulty.\<newline>- For 'Level 3: Boards', questions should be straightforward and knowledge-based.\<newline>- IMPORTANT: For any mathematical equations or symbols, use standard LaTeX formatting. Use $...$ for inline equations (e.g., $E=mc^2$) and $$...$$ for block equations that should appear on their own line.\<newline>- For each question, provide a 'sourceHint' string that briefly describes the core concept being tested (e.g., 'Concept: Conservation of Momentum').\<newline>- For each question, also provide a 'resourceLink' object containing a 'title' (e.g., "Khan Academy: Intro to Projectile Motion") and a 'url'. The URL must point to a reputable, public, and free-to-access webpage (like a university site, Khan Academy, GeeksforGeeks, Physics Classroom, etc.) where the user can read more about the underlying concept. Do not provide links that are behind a paywall, require a login, or are from dubious sources. The URL must be a full, valid, and working link. Do not invent URLs.\<newline>''\<close>

definition mistakes_block :: "IncorrectAnswer list \<Rightarrow> string" where
  \<open>mistakes_block incorrectAnswers =
     ''\<newline>I previously took a quiz on this topic and made these mistakes:\<newline>\<newline>''
       @ join ''\<newline>'' (map mistake_line incorrectAnswers)
       @ ''\<newline>\<newline>Please generate a new, different quiz that specifically targets the concepts I'm struggling with based on these mistakes. The questions should be related but not identical.''\<close>

text \<open>
  The prompt before the mistake block (lines 98 to 120 of the source). \<open>mergeTopic\<close> is
  tested for truthiness: absent and the empty string both skip the sentence.
\<close>

definition base_prompt :: "QuizConfig \<Rightarrow> string" where
  \<open>base_prompt cfg =
     (let prompt = ''Generate a 20-question multiple-choice quiz for a student preparing for the ''
            @ Exam_str (exam cfg) @ '' exam. The subject is '' @ Subject_str (subject cfg) @ ''.'';
          prompt = prompt @
            (if topic cfg = ''Foundational Concepts''
             then '' The quiz should cover a mix of the most important, foundational, and frequently tested concepts from the entire ''
                    @ Subject_str (subject cfg) @ '' syllabus for '' @ Exam_str (exam cfg) @ ''.''
             else '' The primary topic is "'' @ topic cfg @ ''".'');
          prompt = prompt @ '' The difficulty should be appropriate for ''
            @ DifficultyLevel_str (level cfg) @ ''.'';
          prompt = prompt @
            (case mergeTopic cfg of
               None \<Rightarrow> []
             | Some m \<Rightarrow>
                 if m = [] then []
                 else '' Please also incorporate concepts from the secondary topic "'' @ m
                   @ ''" to create some multi-concept questions that test the integration of both topics.'')
      in prompt @ level_rules)\<close>

definition generateQuizPrompt :: "QuizConfig \<Rightarrow> IncorrectAnswer list option \<Rightarrow> string" where
  "generateQuizPrompt cfg incorrectAnswers =
     (let prompt = base_prompt cfg
      in case incorrectAnswers of
           None \<Rightarrow> prompt
         | Some ias \<Rightarrow> if length ias > 0 then prompt @ mistakes_block ias else prompt)"

section \<open>Resilient invoker (src/services/geminiService.ts, withRetry)\<close>

text \<open>
  The operation \<open>apiCall\<close> is a step on the state of the outside world: it returns the
  value it resolves with or the value it rejects with, and the world after the call.
  A run of \<open>withRetry\<close> is returned with its trace: how many times the operation was
  invoked and which delays (in milliseconds) were handed to \<open>setTimeout\<close>, in order.
  A delay is a number of milliseconds or the \<open>Infinity\<close> of the doubles. The console
  output is not modelled.
\<close>

datatype delay = Ms nat | Infinity

record ('a, 's) run =
  outcome :: "thrown + 'a"
  calls :: nat
  delays :: "delay list"
  world :: 's

definition errorMessage_of :: "runtime \<Rightarrow> thrown \<Rightarrow> string" where
  "errorMessage_of rt err =
     (case err of
        JsError nm msg \<Rightarrow> toLowerCase rt msg
      | NonError str \<Rightarrow> toLowerCase rt str)"

definition isTransientError :: "string \<Rightarrow> bool" where
  "isTransientError errorMessage \<longleftrightarrow>
     str_includes errorMessage ''500'' \<or>
     str_includes errorMessage ''503'' \<or>
     str_includes errorMessage ''rpc failed'' \<or>
     str_includes errorMessage ''network error'' \<or>
     str_includes errorMessage ''xhr error''"

text \<open>The error thrown from the \<open>else\<close> branch (lines 38 to 45).\<close>

definition final_error :: "runtime \<Rightarrow> thrown \<Rightarrow> thrown" where
  "final_error rt err =
     (if isTransientError (errorMessage_of rt err)
      then new_Error ''The AI service is currently unavailable. Please try again in a few moments.''
      else case err of
             JsError nm msg \<Rightarrow>
               new_Error (''An unexpected error occurred while communicating with the AI service. Details: '' @ msg)
           | NonError str \<Rightarrow>
               new_Error ''An unknown error occurred while communicating with the AI service.'')"

text \<open>
  \<open>1000 * Math.pow(2, attempt - 1)\<close> on doubles, for the counter after its increment.
  The power and the product are exact while they are finite: the product is below the
  largest double up to the exponent 1014, and is \<open>Infinity\<close> from the exponent 1015 on.
  (The counter is never 0 here; \<open>1000 * Math.pow(2, -1)\<close> is 500.)
\<close>

definition backoff_delay :: "nat \<Rightarrow> delay" where
  "backoff_delay attempt =
     (if attempt = 0 then Ms 500
      else if attempt - 1 \<le> 1014 then Ms (1000 * 2 ^ (attempt - 1))
      else Infinity)"

text \<open>
  The \<open>while (true)\<close> loop. \<open>attempt\<close> is the counter before this iteration, \<open>n\<close> the
  number of invocations so far and \<open>ds\<close> the delays so far. \<open>maxRetries\<close> is an integer:
  every call of the repository leaves it at its default.
\<close>

function withRetry_loop ::
  "runtime \<Rightarrow> ('s \<Rightarrow> (thrown + 'a) \<times> 's) \<Rightarrow> int \<Rightarrow> nat \<Rightarrow> nat \<Rightarrow> delay list \<Rightarrow> 's
     \<Rightarrow> ('a, 's) run"
where
  "withRetry_loop rt apiCall maxRetries attempt n ds s =
     (case fst (apiCall s) of
        Inr v \<Rightarrow> \<lparr>outcome = Inr v, calls = n + 1, delays = ds, world = snd (apiCall s)\<rparr>
      | Inl err \<Rightarrow>
          if isTransientError (errorMessage_of rt err) \<and> int (attempt + 1) < maxRetries
          then withRetry_loop rt apiCall maxRetries (attempt + 1) (n + 1)
                 (ds @ [backoff_delay (attempt + 1)]) (snd (apiCall s))
          else \<lparr>outcome = Inl (final_error rt err), calls = n + 1, delays = ds,
                 world = snd (apiCall s)\<rparr>)"
  by pat_completeness auto
termination
  by (relation "measure (\<lambda>(rt, apiCall, maxRetries, attempt, n, ds, s). nat (maxRetries - int attempt))")
     auto

declare withRetry_loop.simps [simp del]

text \<open>\<open>maxRetries = 3\<close> is the default of the parameter.\<close>

definition withRetry ::
  "runtime \<Rightarrow> ('s \<Rightarrow> (thrown + 'a) \<times> 's) \<Rightarrow> int option \<Rightarrow> 's \<Rightarrow> ('a, 's) run"
where
  "withRetry rt apiCall maxRetries s =
     withRetry_loop rt apiCall (case maxRetries of None \<Rightarrow> 3 | Some m \<Rightarrow> m) 0 0 [] s"

section \<open>Quiz generation (src/services/geminiService.ts, generateQuiz)\<close>

text \<open>
  The request handed to \<open>ai.models.generateContent\<close> (the response schema is a
  constant of the source and is left out) and the part of its response the code reads.
\<close>

record GenerateContentRequest =
  model :: string
  contents :: string
  responseMimeType :: string

record GenerateContentResponse =
  response_text :: "string option"

text \<open>The body of the \<open>try\<close> block after the provider call (lines 145 to 152).\<close>

definition read_quiz :: "runtime \<Rightarrow> GenerateContentResponse \<Rightarrow> thrown + Question list" where
  "read_quiz rt response =
     (case response_text response of
        None \<Rightarrow> Inl (JsError ''TypeError'' ''Cannot read properties of undefined (reading 'trim')'')
      | Some t \<Rightarrow>
          (case JSON_parse rt (trim rt t) of
             Inl msg \<Rightarrow> Inl (JsError ''SyntaxError'' msg)
           | Inr NotAnArray \<Rightarrow> Inl (new_Error ''AI returned an invalid quiz format.'')
           | Inr (ArrayOf quiz) \<Rightarrow>
               if length quiz = 0 then Inl (new_Error ''AI returned an invalid quiz format.'')
               else Inr quiz))"

text \<open>The \<open>catch\<close> clause of \<open>generateQuiz\<close> (lines 153 to 160).\<close>

definition rethrow :: "thrown \<Rightarrow> thrown" where
  "rethrow err =
     (case err of
        JsError nm msg \<Rightarrow> JsError nm msg
      | NonError str \<Rightarrow> new_Error ''An unknown error occurred while generating the quiz.'')"

text \<open>The argument of \<open>generateContent\<close> (lines 137 to 142).\<close>

definition quiz_request :: "string \<Rightarrow> GenerateContentRequest" where
  "quiz_request prompt =
     \<lparr>model = ''gemini-2.5-flash'', contents = prompt, responseMimeType = ''application/json''\<rparr>"

definition generateQuiz ::
  "runtime \<Rightarrow>
   (GenerateContentRequest \<Rightarrow> 's \<Rightarrow> (thrown + GenerateContentResponse) \<times> 's) \<Rightarrow>
   QuizConfig \<Rightarrow> IncorrectAnswer list option \<Rightarrow> 's \<Rightarrow> (Question list, 's) run"
where
  "generateQuiz rt generateContent cfg incorrect s =
     (let prompt = generateQuizPrompt cfg incorrect;
          r = withRetry rt (generateContent (quiz_request prompt)) None s;
          body = (case outcome r of
                    Inl err \<Rightarrow> Inl err
                  | Inr response \<Rightarrow> read_quiz rt response)
      in \<lparr>outcome = (case body of Inl err \<Rightarrow> Inl (rethrow err) | Inr quiz \<Rightarrow> Inr quiz),
          calls = calls r, delays = delays r, world = world r\<rparr>)"

text \<open>
  The invariant the specification gives for a question: exactly four options, and a
  correct-answer index in the range 0 to 3.
\<close>

definition Question_invariant :: "Question \<Rightarrow> bool" where
  "Question_invariant q \<longleftrightarrow>
     length (options q) = 4 \<and> 0 \<le> correctAnswerIndex q \<and> correctAnswerIndex q \<le> 3"

section \<open>JavaScript numbers in the percentage (src/App.tsx, line 82)\<close>

text \<open>
  \<open>Math.round((score / questions.length) * 100)\<close> is computed on IEEE 754 doubles:
  the quotient is rounded to the nearest double, then the product is, and \<open>Math.round\<close>
  takes the nearest integer, a tie going up. A double is modelled by the rational it
  denotes. \<open>to_double\<close> rounds a rational to 53 significant bits, a tie going to the
  even significand; overflow and subnormal numbers do not occur for the values of this
  computation, which lie between \<open>2 powi (-53)\<close> and 100 when they are not zero.
\<close>

definition round_half_even :: "rat \<Rightarrow> int" where
  "round_half_even x =
     (let f = \<lfloor>x\<rfloor>; d = x - of_int f
      in if d < 1 / 2 then f else if 1 / 2 < d then f + 1 else if even f then f else f + 1)"

text \<open>For \<open>x > 0\<close>, the integer \<open>e\<close> with \<open>2 powi e \<le> x < 2 powi (e + 1)\<close>.\<close>

definition exponent_of :: "rat \<Rightarrow> int" where
  "exponent_of x =
     (let d = bitlen (fst (quotient_of x)) - bitlen (snd (quotient_of x))
      in if 2 powi d \<le> x then d else d - 1)"

definition to_double :: "rat \<Rightarrow> rat" where
  "to_double x =
     (if x = 0 then 0
      else let e = exponent_of \<bar>x\<bar> - 52
           in of_int (round_half_even (x / 2 powi e)) * 2 powi e)"

definition Math_round :: "rat \<Rightarrow> int" where
  "Math_round x = \<lfloor>x + 1 / 2\<rfloor>"

text \<open>
  The percentage for a score and a number of questions; \<open>None\<close> is \<open>NaN\<close>, the value
  of \<open>0 / 0\<close> (the score of an empty question set is 0).
\<close>

definition percentage_of :: "int \<Rightarrow> nat \<Rightarrow> int option" where
  "percentage_of sc n =
     (if n = 0 then None
      else Some (Math_round (to_double (to_double (of_int sc / of_nat n) * 100))))"

section \<open>Quiz session controller (src/App.tsx)\<close>

text \<open>The state held by the component: its \<open>useState\<close> cells and the \<open>useRef\<close> flag.\<close>

record session =
  quizConfig :: "QuizConfig option"
  questions :: "Question list"
  userAnswers :: "answer list"
  incorrectAnswers :: "IncorrectAnswer list"
  quizState :: QuizState
  error :: "string option"
  quizHistory :: "QuizHistoryItem list"
  showHistory :: bool
  isSubmitting :: bool
  isSubmittingRef :: bool

text \<open>\<open>answers[i]\<close>: \<open>undefined\<close> beyond the end of the array.\<close>

definition answer_at :: "answer list \<Rightarrow> nat \<Rightarrow> answer" where
  "answer_at answers i = (if i < length answers then answers ! i else Undefined)"

text \<open>\<open>{ ...q, userAnswerIndex: a }\<close>\<close>

definition with_userAnswerIndex :: "Question \<Rightarrow> answer \<Rightarrow> IncorrectAnswer" where
  "with_userAnswerIndex q a =
     \<lparr>question = question q, options = options q, correctAnswerIndex = correctAnswerIndex q,
      explanation = explanation q, sourceHint = sourceHint q, resourceLink = resourceLink q,
      userAnswerIndex = a\<rparr>"

text \<open>
  Lines 67 to 69: \<open>map\<close> with the index, then \<open>filter\<close> with the index. Inside the
  filter \<open>questions[i]\<close> is always in range, the mapped array being as long as
  \<open>questions\<close>.
\<close>

definition incorrect_of :: "Question list \<Rightarrow> answer list \<Rightarrow> IncorrectAnswer list" where
  "incorrect_of qs answers =
     map snd
       (filter
          (\<lambda>(i, x). answer_at answers i \<noteq> Null \<and>
                    answer_at answers i \<noteq> Num (correctAnswerIndex (qs ! i)))
          (enumerate 0
             (map (\<lambda>(i, q). with_userAnswerIndex q (answer_at answers i)) (enumerate 0 qs))))"

text \<open>
  Lines 72 to 74: \<open>reduce\<close> over the answers with their indices. Reading
  \<open>questions[index].correctAnswerIndex\<close> beyond the questions throws a \<open>TypeError\<close>.
\<close>

fun score_reduce :: "Question list \<Rightarrow> (nat \<times> answer) list \<Rightarrow> int \<Rightarrow> thrown + int" where
  "score_reduce qs [] acc = Inr acc"
| "score_reduce qs ((index, a) # rest) acc =
     (if index < length qs
      then score_reduce qs rest (if a = Num (correctAnswerIndex (qs ! index)) then acc + 1 else acc)
      else Inl (JsError ''TypeError''
                  ''Cannot read properties of undefined (reading 'correctAnswerIndex')''))"

definition score_of :: "Question list \<Rightarrow> answer list \<Rightarrow> thrown + int" where
  "score_of qs answers = score_reduce qs (enumerate 0 answers) 0"

text \<open>
  \<open>handleQuizCompletion\<close>. The two readings of \<open>Date.now()\<close> are parameters. When the
  score computation throws, the exception leaves the handler after \<open>setUserAnswers\<close>
  and \<open>setIncorrectAnswers\<close> have been called: \<open>Inl\<close> carries the thrown value and the
  session with these two updates.
\<close>

definition handleQuizCompletion ::
  "int \<Rightarrow> int \<Rightarrow> answer list \<Rightarrow> session \<Rightarrow> (thrown \<times> session) + session"
where
  "handleQuizCompletion now_id now_date answers s =
     (let s1 = s\<lparr>userAnswers := answers\<rparr>;
          s2 = s1\<lparr>incorrectAnswers := incorrect_of (questions s) answers\<rparr>
      in case score_of (questions s) answers of
           Inl err \<Rightarrow> Inl (err, s2)
         | Inr sc \<Rightarrow>
             let s3 = (case quizConfig s of
                         None \<Rightarrow> s2
                       | Some cfg \<Rightarrow>
                           s2\<lparr>quizHistory :=
                                \<lparr>id = now_id, config = cfg, score = sc,
                                 totalQuestions = int (length (questions s)),
                                 percentage = percentage_of sc (length (questions s)),
                                 date = now_date\<rparr> # quizHistory s2\<rparr>)
             in Inr (s3\<lparr>quizState := finished\<rparr>))"

text \<open>
  \<open>startQuiz\<close> is asynchronous. \<open>startQuiz_call\<close> is the part that runs at once, up to
  the \<open>await\<close>: it returns the new state and the arguments of the \<open>generateQuiz\<close> call
  it issues, or \<open>None\<close> when it returns at the guard. \<open>startQuiz_settle\<close> is the part
  that runs when that call has resolved or rejected.
\<close>

definition startQuiz_call ::
  "QuizConfig \<Rightarrow> bool \<Rightarrow> session \<Rightarrow> session \<times> (QuizConfig \<times> IncorrectAnswer list option) option"
where
  "startQuiz_call cfg isRetry s =
     (if isSubmittingRef s then (s, None)
      else (s\<lparr>isSubmittingRef := True, isSubmitting := True, quizConfig := Some cfg,
              quizState := loading, error := None, showHistory := False\<rparr>,
            Some (cfg, if isRetry then Some (incorrectAnswers s) else None)))"

definition startQuiz_settle :: "thrown + Question list \<Rightarrow> session \<Rightarrow> session" where
  "startQuiz_settle result s =
     (let s1 = (case result of
                  Inr generatedQuestions \<Rightarrow>
                    s\<lparr>questions := generatedQuestions, userAnswers := [],
                      incorrectAnswers := [], quizState := active\<rparr>
                | Inl (JsError nm msg) \<Rightarrow> s\<lparr>error := Some msg, quizState := idle\<rparr>
                | Inl (NonError str) \<Rightarrow>
                    s\<lparr>error := Some ''An unknown error occurred.'', quizState := idle\<rparr>)
      in s1\<lparr>isSubmitting := False, isSubmittingRef := False\<rparr>)"

definition handleNewTopic :: "session \<Rightarrow> session" where
  "handleNewTopic s =
     s\<lparr>quizConfig := None, questions := [], userAnswers := [], incorrectAnswers := [],
       quizState := idle, error := None, showHistory := False\<rparr>"

text \<open>
  The effect of the results screen (src/components/ResultsView.tsx, lines 32 to 51).
  The screen is rendered while the state is \<open>finished\<close> and a configuration is set; its
  effect runs when it is mounted and when \<open>quizConfig\<close> or \<open>incorrectAnswers\<close> changes,
  and with a non-empty list it starts \<open>generateSuggestions\<close> and
  \<open>generateImprovementSuggestions\<close> together (\<open>Promise.all\<close>), behind no guard.
  \<open>results_effect\<close> gives the calls it starts for a session.
\<close>

datatype suggestion_call =
    Suggestions QuizConfig "IncorrectAnswer list"
  | ImprovementSuggestions QuizConfig "IncorrectAnswer list"

definition results_effect :: "session \<Rightarrow> suggestion_call list" where
  "results_effect s =
     (case quizConfig s of
        None \<Rightarrow> []
      | Some cfg \<Rightarrow>
          if quizState s = finished \<and> length (incorrectAnswers s) > 0
          then [Suggestions cfg (incorrectAnswers s), ImprovementSuggestions cfg (incorrectAnswers s)]
          else [])"

text \<open>
  The component with the generation calls that have been issued and have not settled
  yet: \<open>pending\<close> holds the \<open>generateQuiz\<close> calls, \<open>suggesting\<close> the calls of the
  results screen. The events drive it as the single-threaded event loop does, one
  handler at a time. \<open>Settle\<close> delivers the result of the oldest pending \<open>generateQuiz\<close>
  call, \<open>SettleSuggestion\<close> that of a call of the results screen (its result touches
  only the local state of that screen, which is not modelled); \<open>TryAgain\<close> is
  \<open>handleTryAgain\<close> and \<open>ClearHistory\<close> a confirmed \<open>handleClearHistory\<close>. A completion
  sets \<open>incorrectAnswers\<close> to a new array, so the effect of the results screen runs
  after it whenever that screen is rendered then.
\<close>

record app =
  sess :: session
  pending :: "(QuizConfig \<times> IncorrectAnswer list option) list"
  suggesting :: "suggestion_call list"

datatype event =
    StartQuiz QuizConfig
  | TryAgain
  | Settle "thrown + Question list"
  | SettleSuggestion
  | QuizCompletion int int "answer list"
  | NewTopic
  | ShowHistory bool
  | ClearHistory

fun app_step :: "app \<Rightarrow> event \<Rightarrow> app" where
  "app_step a (StartQuiz cfg) =
     (case startQuiz_call cfg False (sess a) of
        (s', None) \<Rightarrow> a\<lparr>sess := s'\<rparr>
      | (s', Some c) \<Rightarrow> a\<lparr>sess := s', pending := pending a @ [c]\<rparr>)"
| "app_step a TryAgain =
     (case quizConfig (sess a) of
        None \<Rightarrow> a
      | Some cfg \<Rightarrow>
          (case startQuiz_call cfg True (sess a) of
             (s', None) \<Rightarrow> a\<lparr>sess := s'\<rparr>
           | (s', Some c) \<Rightarrow> a\<lparr>sess := s', pending := pending a @ [c]\<rparr>))"
| "app_step a (Settle result) =
     (case pending a of
        [] \<Rightarrow> a
      | c # cs \<Rightarrow> a\<lparr>sess := startQuiz_settle result (sess a), pending := cs\<rparr>)"
| "app_step a SettleSuggestion = a\<lparr>suggesting := tl (suggesting a)\<rparr>"
| "app_step a (QuizCompletion now_id now_date answers) =
     (case handleQuizCompletion now_id now_date answers (sess a) of
        Inl (err, s') \<Rightarrow> a\<lparr>sess := s', suggesting := suggesting a @ results_effect s'\<rparr>
      | Inr s' \<Rightarrow> a\<lparr>sess := s', suggesting := suggesting a @ results_effect s'\<rparr>)"
| "app_step a NewTopic = a\<lparr>sess := handleNewTopic (sess a)\<rparr>"
| "app_step a (ShowHistory b) = a\<lparr>sess := (sess a)\<lparr>showHistory := b\<rparr>\<rparr>"
| "app_step a ClearHistory = a\<lparr>sess := (sess a)\<lparr>quizHistory := []\<rparr>\<rparr>"

text \<open>The component as it is mounted, with the history read from storage.\<close>

definition initial_app :: "QuizHistoryItem list \<Rightarrow> app" where
  "initial_app history =
     \<lparr>sess = \<lparr>quizConfig = None, questions = [], userAnswers = [], incorrectAnswers = [],
              quizState = idle, error = None, quizHistory = history, showHistory = False,
              isSubmitting = False, isSubmittingRef = False\<rparr>,
      pending = [], suggesting = []\<rparr>"

section \<open>Notions used to state the properties\<close>

text \<open>
  The number of entries of the answer array that equal the correct-answer index of the
  question at the same position.
\<close>

definition correct_count :: "answer list \<Rightarrow> Question list \<Rightarrow> int" where
  "correct_count answers qs =
     int (length (filter (\<lambda>(a, q). a = Num (correctAnswerIndex q)) (zip answers qs)))"


text \<open>
  At most one \<open>generateQuiz\<close> call is pending, and the flag is set exactly while one is.
\<close>

definition one_in_flight :: "app \<Rightarrow> bool" where
  "one_in_flight a \<longleftrightarrow>
     length (pending a) \<le> 1 \<and> (isSubmittingRef (sess a) \<longleftrightarrow> pending a \<noteq> [])"

text \<open>The number of generation calls in flight, of all three kinds.\<close>

definition in_flight :: "app \<Rightarrow> nat" where
  "in_flight a = length (pending a) + length (suggesting a)"

section \<open>Concrete inputs for the closed instances\<close>

definition cfg_kinematics :: QuizConfig where
  "cfg_kinematics =
     \<lparr>exam = JEE, subject = Physics, topic = ''Kinematics'', level = Level3_Boards,
      mergeTopic = None\<rparr>"

text \<open>
  A case mapping: the ASCII letters, and the Kelvin sign U+212A (the bytes E2 84 AA),
  whose lower case is the letter k. The other characters are left as they are.
\<close>

definition lower_char :: "char \<Rightarrow> char" where
  "lower_char c =
     (case map_of (zip ''ABCDEFGHIJKLMNOPQRSTUVWXYZ'' ''abcdefghijklmnopqrstuvwxyz'') c of
        Some d \<Rightarrow> d
      | None \<Rightarrow> c)"

fun lower_sample :: "string \<Rightarrow> string" where
  "lower_sample [] = []"
| "lower_sample (c # cs) =
     (if c = CHR 0xE2 \<and> take 2 cs = [CHR 0x84, CHR 0xAA]
      then CHR ''k'' # lower_sample (drop 2 cs)
      else lower_char c # lower_sample cs)"

text \<open>
  The white space and line terminators of the language, in UTF-8: U+0009 to U+000D,
  U+0020, U+00A0, U+1680, U+2000 to U+200A, U+2028, U+2029, U+202F, U+205F, U+3000
  and U+FEFF. \<open>trim_utf8\<close> strips them from both ends.
\<close>

definition white_space :: "string list" where
  "white_space =
     [[CHR 0x09], [CHR 0x0A], [CHR 0x0B], [CHR 0x0C], [CHR 0x0D], [CHR 0x20],
      [CHR 0xC2, CHR 0xA0], [CHR 0xE1, CHR 0x9A, CHR 0x80],
      [CHR 0xE2, CHR 0x80, CHR 0x80], [CHR 0xE2, CHR 0x80, CHR 0x81],
      [CHR 0xE2, CHR 0x80, CHR 0x82], [CHR 0xE2, CHR 0x80, CHR 0x83],
      [CHR 0xE2, CHR 0x80, CHR 0x84], [CHR 0xE2, CHR 0x80, CHR 0x85],
      [CHR 0xE2, CHR 0x80, CHR 0x86], [CHR 0xE2, CHR 0x80, CHR 0x87],
      [CHR 0xE2, CHR 0x80, CHR 0x88], [CHR 0xE2, CHR 0x80, CHR 0x89],
      [CHR 0xE2, CHR 0x80, CHR 0x8A], [CHR 0xE2, CHR 0x80, CHR 0xA8],
      [CHR 0xE2, CHR 0x80, CHR 0xA9], [CHR 0xE2, CHR 0x80, CHR 0xAF],
      [CHR 0xE2, CHR 0x81, CHR 0x9F], [CHR 0xE3, CHR 0x80, CHR 0x80],
      [CHR 0xEF, CHR 0xBB, CHR 0xBF]]"

fun strip_leading :: "string list \<Rightarrow> string \<Rightarrow> string" where
  "strip_leading ws [] = []"
| "strip_leading ws (c # cs) =
     (if [c] \<in> set ws then strip_leading ws cs
      else if c # take 1 cs \<in> set ws then strip_leading ws (drop 1 cs)
      else if c # take 2 cs \<in> set ws then strip_leading ws (drop 2 cs)
      else c # cs)"

definition trim_utf8 :: "string \<Rightarrow> string" where
  "trim_utf8 s = rev (strip_leading (map rev white_space) (rev (strip_leading white_space s)))"

text \<open>A provider that resolves every call with the given text; its world counts the calls.\<close>

definition text_provider ::
  "string \<Rightarrow> GenerateContentRequest \<Rightarrow> nat \<Rightarrow> (thrown + GenerateContentResponse) \<times> nat"
where
  "text_provider t request w = (Inr \<lparr>response_text = Some t\<rparr>, Suc w)"

text \<open>An operation that rejects every call with the given value; its world counts the calls.\<close>

definition rejecting :: "thrown \<Rightarrow> nat \<Rightarrow> (thrown + unit) \<times> nat" where
  "rejecting err w = (Inl err, Suc w)"

text \<open>
  Three response texts: the empty array between no-break spaces (U+00A0, the bytes
  C2 A0) and before a line feed; the word \<open>null\<close> after a byte order mark (U+FEFF) and
  before a line separator (U+2028); the text \<open>[odd]\<close> between a space and a tab.
\<close>

definition nbsp_empty_array :: string where
  "nbsp_empty_array = [CHR 0xC2, CHR 0xA0] @ ''[]'' @ [CHR 0xC2, CHR 0xA0, CHR 0x0A]"

definition bom_null :: string where
  "bom_null = [CHR 0xEF, CHR 0xBB, CHR 0xBF] @ ''null'' @ [CHR 0xE2, CHR 0x80, CHR 0xA8]"

definition spaced_odd :: string where
  "spaced_odd = '' [odd]'' @ [CHR 0x09]"

text \<open>A question object with no options and the correct-answer index 7.\<close>

definition odd_question :: Question where
  "odd_question =
     \<lparr>question = ''Q'', options = [], correctAnswerIndex = 7, explanation = ''E'',
      sourceHint = None, resourceLink = None\<rparr>"

text \<open>
  The values of \<open>JSON.parse\<close> on three texts: the empty array, \<open>null\<close>, and the array
  that holds \<open>odd_question\<close> alone (written \<open>[odd]\<close> here); a \<open>SyntaxError\<close> elsewhere.
\<close>

definition parse_three :: "string \<Rightarrow> string + quizData" where
  "parse_three t =
     (if t = ''[]'' then Inr (ArrayOf [])
      else if t = ''null'' then Inr NotAnArray
      else if t = ''[odd]'' then Inr (ArrayOf [odd_question])
      else Inl ''Unexpected token'')"

definition runtime_sample :: runtime where
  "runtime_sample = \<lparr>toLowerCase = lower_sample, trim = trim_utf8, JSON_parse = parse_three\<rparr>"

text \<open>A mistake on a question with four options: the user chose option 0, option 1 is right.\<close>

definition mistake_sum :: IncorrectAnswer where
  "mistake_sum =
     \<lparr>question = ''What is 2 + 2?'', options = [''three'', ''four'', ''five'', ''six''],
      correctAnswerIndex = 1, explanation = ''Addition.'', sourceHint = None,
      resourceLink = None, userAnswerIndex = Num 0\<rparr>"

text \<open>A question with four options and the given correct-answer index.\<close>

definition question_with :: "int \<Rightarrow> Question" where
  "question_with c =
     \<lparr>question = ''Q'', options = [''a'', ''b'', ''c'', ''d''], correctAnswerIndex = c,
      explanation = ''E'', sourceHint = None, resourceLink = None\<rparr>"

text \<open>The session while a quiz with the given questions is being taken.\<close>

definition session_of :: "Question list \<Rightarrow> session" where
  "session_of qs =
     \<lparr>quizConfig = Some cfg_kinematics, questions = qs, userAnswers = [],
      incorrectAnswers = [], quizState = active, error = None, quizHistory = [],
      showHistory = False, isSubmitting = False, isSubmittingRef = False\<rparr>"

definition three :: "Question list" where
  "three = [question_with 1, question_with 2, question_with 3]"



section \<open>Facts about the string functions\<close>

lemma includes_iff: "str_includes s sub \<longleftrightarrow> (\<exists>p q. s = p @ sub @ q)"
proof -
  have "str_includes s sub = sublist sub s"
    by (induction s) (simp_all add: sublist_Cons_right)
  then show ?thesis
    by (simp add: sublist_def)
qed

lemma includes_mid: "str_includes (p @ sub @ q) sub"
  unfolding includes_iff by blast

lemma includes_append_left: "str_includes s sub \<Longrightarrow> str_includes (p @ s) sub"
  unfolding includes_iff by (metis append.assoc)

lemma includes_append_right: "str_includes s sub \<Longrightarrow> str_includes (s @ q) sub"
  unfolding includes_iff by (metis append.assoc)

lemma includes_join: "x \<in> set xs \<Longrightarrow> str_includes (join sep xs) x"
proof (induction sep xs rule: join.induct)
  case (1 sep)
  then show ?case by simp
next
  case (2 sep y)
  then show ?case using includes_mid [of "[]" x "[]"] by simp
next
  case (3 sep y z zs)
  show ?case
  proof (cases "x = y")
    case True
    then show ?thesis using includes_mid [of "[]" y "sep @ join sep (z # zs)"] by simp
  next
    case False
    with 3 have "str_includes (join sep (z # zs)) x" by simp
    then have "str_includes ((y @ sep) @ join sep (z # zs)) x"
      by (rule includes_append_left)
    then show ?thesis by simp
  qed
qed

lemma includes_self: "str_includes s s"
  using includes_mid [of "[]" s "[]"] by simp

lemma includes_appendI1: "str_includes a sub \<Longrightarrow> str_includes (a @ b) sub"
  by (rule includes_append_right)

lemma includes_appendI2: "str_includes b sub \<Longrightarrow> str_includes (a @ b) sub"
  by (rule includes_append_left)

lemmas includes_intros = includes_self includes_appendI1 includes_appendI2

section \<open>The resilient invoker\<close>

text \<open>One iteration of the loop, by the three ways it can go.\<close>

lemma withRetry_loop_fail_retry:
  assumes "fst (apiCall s) = Inl err"
    and "isTransientError (errorMessage_of rt err)"
    and "int (Suc attempt) < maxRetries"
  shows "withRetry_loop rt apiCall maxRetries attempt n ds s =
         withRetry_loop rt apiCall maxRetries (Suc attempt) (Suc n)
           (ds @ [backoff_delay (Suc attempt)]) (snd (apiCall s))"
  using assms by (subst withRetry_loop.simps) simp

lemma withRetry_loop_fail_stop:
  assumes "fst (apiCall s) = Inl err"
    and "\<not> (isTransientError (errorMessage_of rt err) \<and> int (Suc attempt) < maxRetries)"
  shows "withRetry_loop rt apiCall maxRetries attempt n ds s =
         \<lparr>outcome = Inl (final_error rt err), calls = Suc n, delays = ds,
          world = snd (apiCall s)\<rparr>"
  using assms by (subst withRetry_loop.simps) auto

lemma withRetry_loop_success:
  assumes "fst (apiCall s) = Inr v"
  shows "withRetry_loop rt apiCall maxRetries attempt n ds s =
         \<lparr>outcome = Inr v, calls = Suc n, delays = ds, world = snd (apiCall s)\<rparr>"
  using assms by (subst withRetry_loop.simps) simp

lemma final_error_transient:
  "isTransientError (errorMessage_of rt err) \<Longrightarrow>
   final_error rt err =
     new_Error ''The AI service is currently unavailable. Please try again in a few moments.''"
  by (simp add: final_error_def)

lemma backoff_delay_first: "backoff_delay (Suc 0) = Ms (1000 * 2 ^ 0)"
  and backoff_delay_second: "backoff_delay (Suc (Suc 0)) = Ms (1000 * 2 ^ 1)"
  by (simp_all add: backoff_delay_def)

text \<open>The classification of line 27 to 31, on the lower-cased text of the thrown value.\<close>

lemma isTransientError_errorMessage_of:
  "isTransientError (errorMessage_of rt err) \<longleftrightarrow>
     (let low = toLowerCase rt (case err of JsError nm msg \<Rightarrow> msg | NonError str \<Rightarrow> str)
      in str_includes low ''500'' \<or> str_includes low ''503'' \<or>
         str_includes low ''rpc failed'' \<or> str_includes low ''network error'' \<or>
         str_includes low ''xhr error'')"
  by (simp add: isTransientError_def errorMessage_of_def Let_def split: thrown.splits)

text \<open>
  C1. An operation that on every invocation rejects with a value whose lower-cased
  text (the message of an \<open>Error\<close>, the string of any other value) contains one of the
  five transient marks, run with \<open>maxRetries = 3\<close> (given or by default), is invoked
  exactly three times, with a wait of \<open>1000 * 2 ^ 0\<close> ms after the first failure and of
  \<open>1000 * 2 ^ 1\<close> ms after the second, and the run ends with the fixed
  "service unavailable" error.
\<close>

theorem withRetry_transient_exhausts:
  assumes "\<And>w. \<exists>err. fst (apiCall w) = Inl err \<and>
             (let low = toLowerCase rt (case err of JsError nm msg \<Rightarrow> msg | NonError str \<Rightarrow> str)
              in str_includes low ''500'' \<or> str_includes low ''503'' \<or>
                 str_includes low ''rpc failed'' \<or> str_includes low ''network error'' \<or>
                 str_includes low ''xhr error'')"
    and "maxRetries = None \<or> maxRetries = Some 3"
  shows "withRetry rt apiCall maxRetries s =
         \<lparr>outcome = Inl (new_Error ''The AI service is currently unavailable. Please try again in a few moments.''),
          calls = 3, delays = [Ms (1000 * 2 ^ 0), Ms (1000 * 2 ^ 1)],
          world = snd (apiCall (snd (apiCall (snd (apiCall s)))))\<rparr>"
proof -
  let ?s1 = "snd (apiCall s)"
  let ?s2 = "snd (apiCall ?s1)"
  have always: "\<exists>err. fst (apiCall w) = Inl err \<and> isTransientError (errorMessage_of rt err)" for w
    using assms(1) [of w] unfolding isTransientError_errorMessage_of .
  obtain e1 where e1: "fst (apiCall s) = Inl e1" "isTransientError (errorMessage_of rt e1)"
    using always by blast
  obtain e2 where e2: "fst (apiCall ?s1) = Inl e2" "isTransientError (errorMessage_of rt e2)"
    using always by blast
  obtain e3 where e3: "fst (apiCall ?s2) = Inl e3" "isTransientError (errorMessage_of rt e3)"
    using always by blast
  have m: "(case maxRetries of None \<Rightarrow> 3 | Some m \<Rightarrow> m) = (3::int)"
    using assms(2) by auto
  have "withRetry rt apiCall maxRetries s = withRetry_loop rt apiCall 3 0 0 [] s"
    by (simp add: withRetry_def m)
  also have "\<dots> = withRetry_loop rt apiCall 3 (Suc 0) (Suc 0) [Ms (1000 * 2 ^ 0)] ?s1"
    using e1 withRetry_loop_fail_retry [of apiCall s e1 rt 0 3 0 "[]"]
    by (simp add: backoff_delay_first)
  also have "\<dots> = withRetry_loop rt apiCall 3 (Suc (Suc 0)) (Suc (Suc 0))
                      [Ms (1000 * 2 ^ 0), Ms (1000 * 2 ^ 1)] ?s2"
    using e2 withRetry_loop_fail_retry [of apiCall ?s1 e2 rt "Suc 0" 3 "Suc 0" "[Ms (1000 * 2 ^ 0)]"]
    by (simp add: backoff_delay_second)
  also have "\<dots> = \<lparr>outcome = Inl (final_error rt e3), calls = 3,
                      delays = [Ms (1000 * 2 ^ 0), Ms (1000 * 2 ^ 1)],
                      world = snd (apiCall ?s2)\<rparr>"
    using e3 withRetry_loop_fail_stop
      [of apiCall ?s2 e3 rt "Suc (Suc 0)" 3 "Suc (Suc 0)" "[Ms (1000 * 2 ^ 0), Ms (1000 * 2 ^ 1)]"]
    by simp
  finally show ?thesis
    using final_error_transient [OF e3(2)] by simp
qed

text \<open>
  Four operations the theorem covers: an \<open>Error\<close> with a status code, an \<open>Error\<close> whose
  mark is in upper case, a rejected string in mixed case, and an \<open>Error\<close> whose message
  spells NETWORK with the Kelvin sign.
\<close>

lemma lower_sample_texts:
  "lower_sample ''503 Service Unavailable'' = ''503 service unavailable''"
  "lower_sample ''XHR ERROR'' = ''xhr error''"
  "lower_sample ''RPC Failed'' = ''rpc failed''"
  "lower_sample (''NETWOR'' @ [CHR 0xE2, CHR 0x84, CHR 0xAA] @ '' ERROR'') = ''network error''"
  "lower_sample ''API key not valid'' = ''api key not valid''"
  "lower_sample ''boom'' = ''boom''"
  by (simp_all add: lower_char_def)

lemma rejecting_always:
  assumes "str_includes (lower_sample (case e of JsError nm msg \<Rightarrow> msg | NonError str \<Rightarrow> str)) mark"
    and "mark \<in> {''500'', ''503'', ''rpc failed'', ''network error'', ''xhr error''}"
  shows "\<exists>err. fst (rejecting e w) = Inl err \<and>
           (let low = toLowerCase runtime_sample (case err of JsError nm msg \<Rightarrow> msg | NonError str \<Rightarrow> str)
            in str_includes low ''500'' \<or> str_includes low ''503'' \<or>
               str_includes low ''rpc failed'' \<or> str_includes low ''network error'' \<or>
               str_includes low ''xhr error'')"
  using assms by (auto simp: rejecting_def runtime_sample_def Let_def)

lemma rejecting_thrice: "snd (rejecting e (snd (rejecting e (snd (rejecting e 0))))) = 3"
  by (simp add: rejecting_def)

theorem withRetry_transient_exhausts_witness:
  "withRetry runtime_sample (rejecting (JsError ''Error'' ''503 Service Unavailable'')) None 0 =
     \<lparr>outcome = Inl (new_Error ''The AI service is currently unavailable. Please try again in a few moments.''),
      calls = 3, delays = [Ms 1000, Ms 2000], world = 3\<rparr> \<and>
   withRetry runtime_sample (rejecting (JsError ''Error'' ''XHR ERROR'')) (Some 3) 0 =
     \<lparr>outcome = Inl (new_Error ''The AI service is currently unavailable. Please try again in a few moments.''),
      calls = 3, delays = [Ms 1000, Ms 2000], world = 3\<rparr> \<and>
   withRetry runtime_sample (rejecting (NonError ''RPC Failed'')) None 0 =
     \<lparr>outcome = Inl (new_Error ''The AI service is currently unavailable. Please try again in a few moments.''),
      calls = 3, delays = [Ms 1000, Ms 2000], world = 3\<rparr> \<and>
   withRetry runtime_sample
       (rejecting (JsError ''Error'' (''NETWOR'' @ [CHR 0xE2, CHR 0x84, CHR 0xAA] @ '' ERROR''))) None 0 =
     \<lparr>outcome = Inl (new_Error ''The AI service is currently unavailable. Please try again in a few moments.''),
      calls = 3, delays = [Ms 1000, Ms 2000], world = 3\<rparr>"
proof -
  have a: "withRetry runtime_sample (rejecting (JsError ''Error'' ''503 Service Unavailable'')) None 0 =
     \<lparr>outcome = Inl (new_Error ''The AI service is currently unavailable. Please try again in a few moments.''),
      calls = 3, delays = [Ms 1000, Ms 2000], world = 3\<rparr>"
  proof -
    have "str_includes (lower_sample ''503 Service Unavailable'') ''503''"
      by (simp add: lower_char_def)
    then have "\<And>w. \<exists>err. fst (rejecting (JsError ''Error'' ''503 Service Unavailable'') w) = Inl err \<and>
           (let low = toLowerCase runtime_sample (case err of JsError nm msg \<Rightarrow> msg | NonError str \<Rightarrow> str)
            in str_includes low ''500'' \<or> str_includes low ''503'' \<or>
               str_includes low ''rpc failed'' \<or> str_includes low ''network error'' \<or>
               str_includes low ''xhr error'')"
      by (intro rejecting_always [where mark = "''503''"]) (simp_all add: lower_char_def)
    from withRetry_transient_exhausts
      [of "rejecting (JsError ''Error'' ''503 Service Unavailable'')" runtime_sample None 0, OF this]
    show ?thesis by (simp add: rejecting_thrice)
  qed
  have b: "withRetry runtime_sample (rejecting (JsError ''Error'' ''XHR ERROR'')) (Some 3) 0 =
     \<lparr>outcome = Inl (new_Error ''The AI service is currently unavailable. Please try again in a few moments.''),
      calls = 3, delays = [Ms 1000, Ms 2000], world = 3\<rparr>"
  proof -
    have "str_includes (lower_sample ''XHR ERROR'') ''xhr error''"
      by (simp add: lower_char_def)
    then have "\<And>w. \<exists>err. fst (rejecting (JsError ''Error'' ''XHR ERROR'') w) = Inl err \<and>
           (let low = toLowerCase runtime_sample (case err of JsError nm msg \<Rightarrow> msg | NonError str \<Rightarrow> str)
            in str_includes low ''500'' \<or> str_includes low ''503'' \<or>
               str_includes low ''rpc failed'' \<or> str_includes low ''network error'' \<or>
               str_includes low ''xhr error'')"
      by (intro rejecting_always [where mark = "''xhr error''"]) (simp_all add: lower_char_def)
    from withRetry_transient_exhausts
      [of "rejecting (JsError ''Error'' ''XHR ERROR'')" runtime_sample "Some 3" 0, OF this]
    show ?thesis by (simp add: rejecting_thrice)
  qed
  have c: "withRetry runtime_sample (rejecting (NonError ''RPC Failed'')) None 0 =
     \<lparr>outcome = Inl (new_Error ''The AI service is currently unavailable. Please try again in a few moments.''),
      calls = 3, delays = [Ms 1000, Ms 2000], world = 3\<rparr>"
  proof -
    have "str_includes (lower_sample ''RPC Failed'') ''rpc failed''"
      by (simp add: lower_char_def)
    then have "\<And>w. \<exists>err. fst (rejecting (NonError ''RPC Failed'') w) = Inl err \<and>
           (let low = toLowerCase runtime_sample (case err of JsError nm msg \<Rightarrow> msg | NonError str \<Rightarrow> str)
            in str_includes low ''500'' \<or> str_includes low ''503'' \<or>
               str_includes low ''rpc failed'' \<or> str_includes low ''network error'' \<or>
               str_includes low ''xhr error'')"
      by (intro rejecting_always [where mark = "''rpc failed''"]) (simp_all add: lower_char_def)
    from withRetry_transient_exhausts
      [of "rejecting (NonError ''RPC Failed'')" runtime_sample None 0, OF this]
    show ?thesis by (simp add: rejecting_thrice)
  qed
  have d: "withRetry runtime_sample
       (rejecting (JsError ''Error'' (''NETWOR'' @ [CHR 0xE2, CHR 0x84, CHR 0xAA] @ '' ERROR''))) None 0 =
     \<lparr>outcome = Inl (new_Error ''The AI service is currently unavailable. Please try again in a few moments.''),
      calls = 3, delays = [Ms 1000, Ms 2000], world = 3\<rparr>"
  proof -
    have "str_includes (lower_sample (''NETWOR'' @ [CHR 0xE2, CHR 0x84, CHR 0xAA] @ '' ERROR'')) ''network error''"
      by (simp add: lower_char_def)
    then have "\<And>w. \<exists>err.
           fst (rejecting (JsError ''Error'' (''NETWOR'' @ [CHR 0xE2, CHR 0x84, CHR 0xAA] @ '' ERROR'')) w)
             = Inl err \<and>
           (let low = toLowerCase runtime_sample (case err of JsError nm msg \<Rightarrow> msg | NonError str \<Rightarrow> str)
            in str_includes low ''500'' \<or> str_includes low ''503'' \<or>
               str_includes low ''rpc failed'' \<or> str_includes low ''network error'' \<or>
               str_includes low ''xhr error'')"
      by (intro rejecting_always [where mark = "''network error''"]) (simp_all add: lower_char_def)
    from withRetry_transient_exhausts
      [of "rejecting (JsError ''Error'' (''NETWOR'' @ [CHR 0xE2, CHR 0x84, CHR 0xAA] @ '' ERROR''))"
          runtime_sample None 0, OF this]
    show ?thesis by (simp add: rejecting_thrice)
  qed
  from a b c d show ?thesis by (intro conjI)
qed

text \<open>
  C2, as amended. When the first invocation rejects with a value whose lower-cased
  text contains none of the five transient marks, \<open>withRetry\<close> raises after exactly one
  invocation and without any delay, whatever \<open>maxRetries\<close> is. When the value is an
  \<open>Error\<close>, the raised message is the wrapper followed by the original message; when it
  is not an \<open>Error\<close>, the raised message is the fixed "unknown error" text.
\<close>

theorem withRetry_non_transient_raises_at_once:
  assumes "fst (apiCall s) = Inl err"
    and "\<not> (let low = toLowerCase rt (case err of JsError nm msg \<Rightarrow> msg | NonError str \<Rightarrow> str)
            in str_includes low ''500'' \<or> str_includes low ''503'' \<or>
               str_includes low ''rpc failed'' \<or> str_includes low ''network error'' \<or>
               str_includes low ''xhr error'')"
  shows "withRetry rt apiCall maxRetries s =
         \<lparr>outcome = Inl (case err of
              JsError nm msg \<Rightarrow>
                new_Error (''An unexpected error occurred while communicating with the AI service. Details: '' @ msg)
            | NonError str \<Rightarrow>
                new_Error ''An unknown error occurred while communicating with the AI service.''),
          calls = 1, delays = [], world = snd (apiCall s)\<rparr>"
proof -
  have nt: "\<not> isTransientError (errorMessage_of rt err)"
    using assms(2) unfolding isTransientError_errorMessage_of .
  then show ?thesis
    using assms(1) withRetry_loop_fail_stop [of apiCall s err rt 0 _ 0 "[]"]
    by (simp add: withRetry_def final_error_def)
qed

lemma no_mark:
  assumes "\<forall>mark\<in>{''500'', ''503'', ''rpc failed'', ''network error'', ''xhr error''}.
             \<not> str_includes (lower_sample (case e of JsError nm msg \<Rightarrow> msg | NonError str \<Rightarrow> str)) mark"
  shows "\<not> (let low = toLowerCase runtime_sample (case e of JsError nm msg \<Rightarrow> msg | NonError str \<Rightarrow> str)
            in str_includes low ''500'' \<or> str_includes low ''503'' \<or>
               str_includes low ''rpc failed'' \<or> str_includes low ''network error'' \<or>
               str_includes low ''xhr error'')"
  using assms by (simp add: runtime_sample_def Let_def)

theorem withRetry_non_transient_raises_at_once_witness:
  "withRetry runtime_sample (rejecting (JsError ''Error'' ''API key not valid'')) None 0 =
     \<lparr>outcome = Inl (new_Error ''An unexpected error occurred while communicating with the AI service. Details: API key not valid''),
      calls = 1, delays = [], world = 1\<rparr> \<and>
   withRetry runtime_sample (rejecting (NonError ''quota exceeded'')) (Some 5) 0 =
     \<lparr>outcome = Inl (new_Error ''An unknown error occurred while communicating with the AI service.''),
      calls = 1, delays = [], world = 1\<rparr>"
proof -
  have a: "withRetry runtime_sample (rejecting (JsError ''Error'' ''API key not valid'')) None 0 =
     \<lparr>outcome = Inl (new_Error ''An unexpected error occurred while communicating with the AI service. Details: API key not valid''),
      calls = 1, delays = [], world = 1\<rparr>"
  proof -
    have f: "fst (rejecting (JsError ''Error'' ''API key not valid'') 0) = Inl (JsError ''Error'' ''API key not valid'')"
      by (simp add: rejecting_def)
    have "\<forall>mark\<in>{''500'', ''503'', ''rpc failed'', ''network error'', ''xhr error''}.
             \<not> str_includes (lower_sample ''API key not valid'') mark"
      by (simp add: lower_char_def)
    then have n: "\<not> (let low = toLowerCase runtime_sample
                       (case JsError ''Error'' ''API key not valid'' of JsError nm msg \<Rightarrow> msg | NonError str \<Rightarrow> str)
            in str_includes low ''500'' \<or> str_includes low ''503'' \<or>
               str_includes low ''rpc failed'' \<or> str_includes low ''network error'' \<or>
               str_includes low ''xhr error'')"
      by (intro no_mark) (simp add: lower_char_def)
    from withRetry_non_transient_raises_at_once
      [of "rejecting (JsError ''Error'' ''API key not valid'')" 0 "JsError ''Error'' ''API key not valid''"
          runtime_sample None, OF f n]
    show ?thesis by (simp add: rejecting_def)
  qed
  have b: "withRetry runtime_sample (rejecting (NonError ''quota exceeded'')) (Some 5) 0 =
     \<lparr>outcome = Inl (new_Error ''An unknown error occurred while communicating with the AI service.''),
      calls = 1, delays = [], world = 1\<rparr>"
  proof -
    have f: "fst (rejecting (NonError ''quota exceeded'') 0) = Inl (NonError ''quota exceeded'')"
      by (simp add: rejecting_def)
    have "\<forall>mark\<in>{''500'', ''503'', ''rpc failed'', ''network error'', ''xhr error''}.
             \<not> str_includes (lower_sample ''quota exceeded'') mark"
      by (simp add: lower_char_def)
    then have n: "\<not> (let low = toLowerCase runtime_sample
                       (case NonError ''quota exceeded'' of JsError nm msg \<Rightarrow> msg | NonError str \<Rightarrow> str)
            in str_includes low ''500'' \<or> str_includes low ''503'' \<or>
               str_includes low ''rpc failed'' \<or> str_includes low ''network error'' \<or>
               str_includes low ''xhr error'')"
      by (intro no_mark) (simp add: lower_char_def)
    from withRetry_non_transient_raises_at_once
      [of "rejecting (NonError ''quota exceeded'')" 0 "NonError ''quota exceeded''"
          runtime_sample "Some 5", OF f n]
    show ?thesis by (simp add: rejecting_def)
  qed
  from a b show ?thesis by (intro conjI)
qed

text \<open>
  The claim as it stands fails for a rejection with a value that is not an \<open>Error\<close>:
  the string \<open>boom\<close> is not transient, and the message raised for it does not carry it.
\<close>

lemma not_transient_boom: "\<not> isTransientError (errorMessage_of runtime_sample (NonError ''boom''))"
  using lower_sample_texts
  by (simp add: isTransientError_def errorMessage_of_def runtime_sample_def)

theorem withRetry_non_Error_text_lost:
  "\<not> isTransientError (toLowerCase runtime_sample ''boom'') \<and>
   outcome (withRetry runtime_sample (rejecting (NonError ''boom'')) None 0) =
     Inl (new_Error ''An unknown error occurred while communicating with the AI service.'') \<and>
   calls (withRetry runtime_sample (rejecting (NonError ''boom'')) None 0) = 1 \<and>
   \<not> str_includes ''An unknown error occurred while communicating with the AI service.'' ''boom''"
proof -
  have "withRetry_loop runtime_sample (rejecting (NonError ''boom'')) 3 0 0 [] 0 =
          \<lparr>outcome = Inl (final_error runtime_sample (NonError ''boom'')), calls = Suc 0, delays = [],
           world = Suc 0\<rparr>"
    using withRetry_loop_fail_stop
      [of "rejecting (NonError ''boom'')" 0 "NonError ''boom''" runtime_sample 0 3 0 "[]"]
      not_transient_boom
    by (simp add: rejecting_def)
  then show ?thesis
    using not_transient_boom
    by (simp add: withRetry_def final_error_def errorMessage_of_def)
qed

section \<open>The prompt builder\<close>

lemma base_prompt_exam: "str_includes (base_prompt cfg) (Exam_str (exam cfg))"
  unfolding base_prompt_def Let_def by (fast intro: includes_intros)

lemma base_prompt_subject: "str_includes (base_prompt cfg) (Subject_str (subject cfg))"
  unfolding base_prompt_def Let_def by (fast intro: includes_intros)

lemma base_prompt_level: "str_includes (base_prompt cfg) (DifficultyLevel_str (level cfg))"
  unfolding base_prompt_def Let_def by (fast intro: includes_intros)

lemma base_prompt_topic:
  assumes "topic cfg \<noteq> ''Foundational Concepts''"
  shows "str_includes (base_prompt cfg) (topic cfg)"
  unfolding base_prompt_def Let_def if_not_P [OF assms] by (fast intro: includes_intros)

lemma base_prompt_opening:
  "prefix (''Generate a 20-question multiple-choice quiz for a student preparing for the ''
            @ Exam_str (exam cfg) @ '' exam. The subject is '' @ Subject_str (subject cfg) @ ''.'')
     (base_prompt cfg)"
  unfolding base_prompt_def Let_def by (simp add: prefix_def)

lemma generateQuizPrompt_base:
  "generateQuizPrompt cfg ias = base_prompt cfg @
      (case ias of None \<Rightarrow> [] | Some xs \<Rightarrow> if xs = [] then [] else mistakes_block xs)"
  by (simp add: generateQuizPrompt_def Let_def split: option.splits)

text \<open>
  C4. For every configuration, and with or without a mistake list, the quiz prompt
  opens with the request for a 20-question quiz for the configured exam and subject,
  and contains the exam, subject and level strings; when the topic is not
  "Foundational Concepts" it contains the topic string as well.
\<close>

theorem quiz_prompt_tokens:
  "prefix (''Generate a 20-question multiple-choice quiz for a student preparing for the ''
            @ Exam_str (exam cfg) @ '' exam. The subject is '' @ Subject_str (subject cfg) @ ''.'')
     (generateQuizPrompt cfg ias) \<and>
   str_includes (generateQuizPrompt cfg ias) (Exam_str (exam cfg)) \<and>
   str_includes (generateQuizPrompt cfg ias) (Subject_str (subject cfg)) \<and>
   str_includes (generateQuizPrompt cfg ias) (DifficultyLevel_str (level cfg)) \<and>
   (topic cfg \<noteq> ''Foundational Concepts'' \<longrightarrow> str_includes (generateQuizPrompt cfg ias) (topic cfg))"
  unfolding generateQuizPrompt_base [of cfg ias]
  using base_prompt_opening [of cfg] base_prompt_exam [of cfg] base_prompt_subject [of cfg]
    base_prompt_level [of cfg] base_prompt_topic [of cfg]
  by (auto intro: includes_appendI1 prefix_prefix simp del: append.simps)

theorem quiz_prompt_tokens_witness:
  "prefix ''Generate a 20-question multiple-choice quiz for a student preparing for the JEE exam. The subject is Physics.''
     (generateQuizPrompt cfg_kinematics None) \<and>
   str_includes (generateQuizPrompt cfg_kinematics None) ''JEE'' \<and>
   str_includes (generateQuizPrompt cfg_kinematics None) ''Physics'' \<and>
   str_includes (generateQuizPrompt cfg_kinematics None) ''Level 3: Boards'' \<and>
   str_includes (generateQuizPrompt cfg_kinematics None) ''Kinematics''"
  using quiz_prompt_tokens [of cfg_kinematics None] by (simp add: cfg_kinematics_def)

text \<open>
  C10. An empty mistake list gives the same prompt as an absent one.
\<close>

theorem quiz_prompt_empty_list: "generateQuizPrompt cfg (Some []) = generateQuizPrompt cfg None"
  by (simp add: generateQuizPrompt_def)

theorem quiz_prompt_empty_list_witness:
  "generateQuizPrompt cfg_kinematics (Some []) = generateQuizPrompt cfg_kinematics None"
  using quiz_prompt_empty_list [of cfg_kinematics] .

lemma mistake_line_user:
  "str_includes (mistake_line a) (option_text (options a) (userAnswerIndex a))"
  unfolding mistake_line_def by (fast intro: includes_intros)

lemma mistake_line_correct:
  "str_includes (mistake_line a) (option_text (options a) (Num (correctAnswerIndex a)))"
  unfolding mistake_line_def by (fast intro: includes_intros)

lemma includes_trans: "str_includes s t \<Longrightarrow> str_includes t u \<Longrightarrow> str_includes s u"
  unfolding includes_iff by (metis append.assoc)

lemma mistakes_block_line:
  "a \<in> set ias \<Longrightarrow> str_includes (mistakes_block ias) (mistake_line a)"
  unfolding mistakes_block_def
  by (intro includes_appendI2 includes_appendI1 includes_join) simp

lemma mistakes_block_nonempty: "mistakes_block ias \<noteq> []"
  by (simp add: mistakes_block_def)

text \<open>
  C5. For a non-empty mistake list whose indices lie inside their option arrays, the
  retry prompt contains, for each mistake, the option the user chose and the correct
  option; it is the prompt built without mistakes followed by the mistake block, and so
  differs from it.
\<close>

theorem retry_prompt_mistakes:
  assumes "ias \<noteq> []"
    and "\<forall>a\<in>set ias. \<exists>i. userAnswerIndex a = Num i \<and> 0 \<le> i \<and> i < int (length (options a))"
    and "\<forall>a\<in>set ias. 0 \<le> correctAnswerIndex a \<and> correctAnswerIndex a < int (length (options a))"
  shows "(\<forall>a\<in>set ias. \<forall>i. userAnswerIndex a = Num i \<longrightarrow>
            str_includes (generateQuizPrompt cfg (Some ias)) (options a ! nat i) \<and>
            str_includes (generateQuizPrompt cfg (Some ias)) (options a ! nat (correctAnswerIndex a)))
       \<and> generateQuizPrompt cfg (Some ias) = generateQuizPrompt cfg None @ mistakes_block ias
       \<and> generateQuizPrompt cfg (Some ias) \<noteq> generateQuizPrompt cfg None"
proof -
  have eq: "generateQuizPrompt cfg (Some ias) = generateQuizPrompt cfg None @ mistakes_block ias"
    using assms(1) by (simp add: generateQuizPrompt_def Let_def)
  have "str_includes (generateQuizPrompt cfg (Some ias)) (options a ! nat i) \<and>
        str_includes (generateQuizPrompt cfg (Some ias)) (options a ! nat (correctAnswerIndex a))"
    if a: "a \<in> set ias" and i: "userAnswerIndex a = Num i" for a i
  proof -
    from assms(2) a i have ri: "0 \<le> i" "i < int (length (options a))" by auto
    from assms(3) a have rc: "0 \<le> correctAnswerIndex a" "correctAnswerIndex a < int (length (options a))"
      by auto
    have line: "str_includes (generateQuizPrompt cfg (Some ias)) (mistake_line a)"
      unfolding eq by (rule includes_appendI2) (rule mistakes_block_line [OF a])
    have "str_includes (mistake_line a) (options a ! nat i)"
      using mistake_line_user [of a] i ri by simp
    moreover have "str_includes (mistake_line a) (options a ! nat (correctAnswerIndex a))"
      using mistake_line_correct [of a] rc by simp
    ultimately show ?thesis
      using line includes_trans by blast
  qed
  moreover have "generateQuizPrompt cfg (Some ias) \<noteq> generateQuizPrompt cfg None"
    unfolding eq using mistakes_block_nonempty [of ias] by simp
  ultimately show ?thesis
    using eq by blast
qed

theorem retry_prompt_mistakes_witness:
  "str_includes (generateQuizPrompt cfg_kinematics (Some [mistake_sum])) ''three'' \<and>
   str_includes (generateQuizPrompt cfg_kinematics (Some [mistake_sum])) ''four'' \<and>
   generateQuizPrompt cfg_kinematics (Some [mistake_sum]) \<noteq> generateQuizPrompt cfg_kinematics None"
proof -
  have h1: "[mistake_sum] \<noteq> []" by simp
  have h2: "\<forall>a\<in>set [mistake_sum]. \<exists>i. userAnswerIndex a = Num i \<and> 0 \<le> i \<and> i < int (length (options a))"
    by (simp add: mistake_sum_def)
  have h3: "\<forall>a\<in>set [mistake_sum]. 0 \<le> correctAnswerIndex a \<and> correctAnswerIndex a < int (length (options a))"
    by (simp add: mistake_sum_def)
  have u: "userAnswerIndex mistake_sum = Num 0" "options mistake_sum ! nat 0 = ''three''"
    "options mistake_sum ! nat (correctAnswerIndex mistake_sum) = ''four''"
    by (simp_all add: mistake_sum_def)
  have "mistake_sum \<in> set [mistake_sum]" by simp
  with retry_prompt_mistakes [OF h1 h2 h3, of cfg_kinematics] u show ?thesis
    by metis
qed

section \<open>Quiz generation\<close>

lemma withRetry_loop_error:
  "outcome (withRetry_loop rt apiCall maxRetries attempt n ds s) = Inl e \<Longrightarrow>
   \<exists>err. e = final_error rt err"
proof (induction rt apiCall maxRetries attempt n ds s rule: withRetry_loop.induct)
  case (1 rt apiCall maxRetries attempt n ds s)
  show ?case
  proof (cases "fst (apiCall s)")
    case (Inr v)
    with "1.prems" show ?thesis
      by (simp add: withRetry_loop_success)
  next
    case (Inl err)
    show ?thesis
    proof (cases "isTransientError (errorMessage_of rt err) \<and> int (Suc attempt) < maxRetries")
      case True
      with Inl "1.prems" "1.IH" [of err] show ?thesis
        by (simp add: withRetry_loop_fail_retry)
    next
      case False
      with Inl "1.prems" show ?thesis
        using withRetry_loop_fail_stop [of apiCall s err rt attempt maxRetries n ds] by auto
    qed
  qed
qed

lemma withRetry_error:
  "outcome (withRetry rt apiCall maxRetries s) = Inl e \<Longrightarrow> \<exists>err. e = final_error rt err"
  unfolding withRetry_def by (rule withRetry_loop_error)

lemma final_error_plain: "\<exists>msg. final_error rt err = new_Error msg"
  by (simp add: final_error_def split: thrown.splits)

lemma final_error_not_format:
  "final_error rt err \<noteq> new_Error ''AI returned an invalid quiz format.''"
  by (simp add: final_error_def split: thrown.splits)

lemma rethrow_final_error: "rethrow (final_error rt err) = final_error rt err"
  using final_error_plain [of rt err] by (auto simp: rethrow_def)

lemma read_quiz_format:
  "read_quiz rt response = Inl (new_Error ''AI returned an invalid quiz format.'') \<longleftrightarrow>
   (\<exists>t. response_text response = Some t \<and>
        (JSON_parse rt (trim rt t) = Inr NotAnArray \<or> JSON_parse rt (trim rt t) = Inr (ArrayOf [])))"
  by (auto simp: read_quiz_def split: option.splits sum.splits quizData.splits)

lemma read_quiz_error_is_Error:
  "read_quiz rt response = Inl e \<Longrightarrow> rethrow e = e"
  by (auto simp: read_quiz_def rethrow_def split: option.splits sum.splits quizData.splits if_splits)

lemma read_quiz_returns:
  "read_quiz rt response = Inr quiz \<longleftrightarrow>
   (\<exists>t. response_text response = Some t \<and> JSON_parse rt (trim rt t) = Inr (ArrayOf quiz) \<and> quiz \<noteq> [])"
  by (auto simp: read_quiz_def split: option.splits sum.splits quizData.splits)

lemma generateQuiz_outcome:
  "outcome (generateQuiz rt generateContent cfg incorrect s) =
     (case outcome (withRetry rt (generateContent (quiz_request (generateQuizPrompt cfg incorrect))) None s) of
        Inl err \<Rightarrow> Inl (rethrow err)
      | Inr response \<Rightarrow>
          (case read_quiz rt response of Inl err \<Rightarrow> Inl (rethrow err) | Inr quiz \<Rightarrow> Inr quiz))"
  by (simp add: generateQuiz_def Let_def split: sum.splits)

text \<open>
  C3. \<open>generateQuiz\<close> raises the format error exactly when the provider call made
  through \<open>withRetry\<close> has resolved and the trimmed response text parses to a value that
  is no array or to the empty array; when it parses to a non-empty array, that array is
  returned. In every case the provider calls, delays and final world of
  \<open>generateQuiz\<close> are those of the one \<open>withRetry\<close> run: nothing is called after parsing.
\<close>

theorem generateQuiz_format_error_iff:
  fixes rt generateContent cfg incorrect s
  shows "(outcome (generateQuiz rt generateContent cfg incorrect s) =
            Inl (new_Error ''AI returned an invalid quiz format.'') \<longleftrightarrow>
          (\<exists>response t.
             outcome (withRetry rt (generateContent (quiz_request (generateQuizPrompt cfg incorrect))) None s)
               = Inr response \<and>
             response_text response = Some t \<and>
             (JSON_parse rt (trim rt t) = Inr NotAnArray \<or>
              JSON_parse rt (trim rt t) = Inr (ArrayOf []))))
       \<and> (\<forall>response t quiz.
             outcome (withRetry rt (generateContent (quiz_request (generateQuizPrompt cfg incorrect))) None s)
               = Inr response \<and>
             response_text response = Some t \<and>
             JSON_parse rt (trim rt t) = Inr (ArrayOf quiz) \<and> quiz \<noteq> []
             \<longrightarrow> outcome (generateQuiz rt generateContent cfg incorrect s) = Inr quiz)
       \<and> calls (generateQuiz rt generateContent cfg incorrect s) =
           calls (withRetry rt (generateContent (quiz_request (generateQuizPrompt cfg incorrect))) None s)
       \<and> delays (generateQuiz rt generateContent cfg incorrect s) =
           delays (withRetry rt (generateContent (quiz_request (generateQuizPrompt cfg incorrect))) None s)
       \<and> world (generateQuiz rt generateContent cfg incorrect s) =
           world (withRetry rt (generateContent (quiz_request (generateQuizPrompt cfg incorrect))) None s)"
proof -
  let ?r = "withRetry rt (generateContent (quiz_request (generateQuizPrompt cfg incorrect))) None s"
  let ?g = "generateQuiz rt generateContent cfg incorrect s"
  note out = generateQuiz_outcome [of rt generateContent cfg incorrect s]
  have a: "outcome ?g = Inl (new_Error ''AI returned an invalid quiz format.'') \<longleftrightarrow>
      (\<exists>response t. outcome ?r = Inr response \<and> response_text response = Some t \<and>
         (JSON_parse rt (trim rt t) = Inr NotAnArray \<or> JSON_parse rt (trim rt t) = Inr (ArrayOf [])))"
  proof (cases "outcome ?r")
    case (Inl e)
    then obtain err where "e = final_error rt err"
      using withRetry_error
        [of rt "generateContent (quiz_request (generateQuizPrompt cfg incorrect))" None s e]
      by auto
    with Inl show ?thesis
      by (simp add: out rethrow_final_error final_error_not_format)
  next
    case (Inr response)
    show ?thesis
    proof (cases "read_quiz rt response")
      case (Inl e)
      with Inr read_quiz_error_is_Error [OF Inl] read_quiz_format [of rt response]
      show ?thesis by (simp add: out)
    next
      case Inr2: (Inr quiz)
      with Inr read_quiz_format [of rt response]
      show ?thesis by (simp add: out)
    qed
  qed
  have b: "\<forall>response t quiz.
      outcome ?r = Inr response \<and> response_text response = Some t \<and>
      JSON_parse rt (trim rt t) = Inr (ArrayOf quiz) \<and> quiz \<noteq> [] \<longrightarrow> outcome ?g = Inr quiz"
    by (auto simp: out read_quiz_def)
  have c: "calls ?g = calls ?r" "delays ?g = delays ?r" "world ?g = world ?r"
    by (simp_all add: generateQuiz_def Let_def)
  from a b c show ?thesis by blast
qed

lemma text_provider_run:
  "withRetry rt (text_provider t request) None w =
     \<lparr>outcome = Inr \<lparr>response_text = Some t\<rparr>, calls = 1, delays = [], world = Suc w\<rparr>"
  using withRetry_loop_success [of "text_provider t request" w "\<lparr>response_text = Some t\<rparr>" rt 3 0 0 "[]"]
  by (simp add: withRetry_def text_provider_def)

lemma trim_examples:
  "trim_utf8 nbsp_empty_array = ''[]''"
  "trim_utf8 bom_null = ''null''"
  "trim_utf8 spaced_odd = ''[odd]''"
  by (simp_all add: trim_utf8_def white_space_def nbsp_empty_array_def bom_null_def spaced_odd_def)

theorem generateQuiz_format_error_iff_witness:
  "outcome (generateQuiz runtime_sample
              (text_provider nbsp_empty_array)
              cfg_kinematics None 0) =
     Inl (new_Error ''AI returned an invalid quiz format.'') \<and>
   calls (generateQuiz runtime_sample
              (text_provider nbsp_empty_array)
              cfg_kinematics None 0) = 1 \<and>
   outcome (generateQuiz runtime_sample
              (text_provider bom_null)
              cfg_kinematics None 0) =
     Inl (new_Error ''AI returned an invalid quiz format.'') \<and>
   outcome (generateQuiz runtime_sample (text_provider spaced_odd) cfg_kinematics None 0) =
     Inr [odd_question]"
proof -
  have rt: "trim runtime_sample = trim_utf8" "JSON_parse runtime_sample = parse_three"
    by (simp_all add: runtime_sample_def)
  have a: "\<exists>response t.
      outcome (withRetry runtime_sample
                 (text_provider nbsp_empty_array
                    (quiz_request (generateQuizPrompt cfg_kinematics None))) None 0)
        = Inr response \<and>
      response_text response = Some t \<and>
      (JSON_parse runtime_sample (trim runtime_sample t) = Inr NotAnArray \<or>
       JSON_parse runtime_sample (trim runtime_sample t) = Inr (ArrayOf []))"
    unfolding text_provider_run rt by (simp add: trim_examples parse_three_def)
  have b: "\<exists>response t.
      outcome (withRetry runtime_sample
                 (text_provider bom_null
                    (quiz_request (generateQuizPrompt cfg_kinematics None))) None 0)
        = Inr response \<and>
      response_text response = Some t \<and>
      (JSON_parse runtime_sample (trim runtime_sample t) = Inr NotAnArray \<or>
       JSON_parse runtime_sample (trim runtime_sample t) = Inr (ArrayOf []))"
    unfolding text_provider_run rt by (simp add: trim_examples parse_three_def)
  have c: "\<exists>response t.
      outcome (withRetry runtime_sample
                 (text_provider spaced_odd
                    (quiz_request (generateQuizPrompt cfg_kinematics None))) None 0)
        = Inr response \<and>
      response_text response = Some t \<and>
      JSON_parse runtime_sample (trim runtime_sample t) = Inr (ArrayOf [odd_question]) \<and>
      [odd_question] \<noteq> []"
    unfolding text_provider_run rt by (simp add: trim_examples parse_three_def)
  note A = generateQuiz_format_error_iff
      [of runtime_sample "text_provider nbsp_empty_array"
          cfg_kinematics None 0]
  note B = generateQuiz_format_error_iff
      [of runtime_sample "text_provider bom_null"
          cfg_kinematics None 0]
  note C = generateQuiz_format_error_iff
      [of runtime_sample "text_provider spaced_odd" cfg_kinematics None 0]
  have 1: "outcome (generateQuiz runtime_sample
              (text_provider nbsp_empty_array)
              cfg_kinematics None 0) = Inl (new_Error ''AI returned an invalid quiz format.'')"
    using A a by blast
  have 2: "calls (generateQuiz runtime_sample
              (text_provider nbsp_empty_array)
              cfg_kinematics None 0) = 1"
    using A by (simp only: text_provider_run) simp
  have 3: "outcome (generateQuiz runtime_sample
              (text_provider bom_null)
              cfg_kinematics None 0) = Inl (new_Error ''AI returned an invalid quiz format.'')"
    using B b by blast
  have 4: "outcome (generateQuiz runtime_sample (text_provider spaced_odd) cfg_kinematics None 0) =
     Inr [odd_question]"
    using C c by blast
  from 1 2 3 4 show ?thesis by (intro conjI)
qed

text \<open>
  C6, as amended. \<open>generateQuiz\<close> returns an array exactly when the provider call
  made through \<open>withRetry\<close> has resolved and the trimmed response text parses to that
  array and the array is not empty: being an array and being non-empty are the only
  conditions, and the array is returned as it was parsed, whatever questions it holds.
\<close>

theorem generateQuiz_returns_parsed_array:
  "outcome (generateQuiz rt generateContent cfg incorrect s) = Inr quiz \<longleftrightarrow>
   (\<exists>response t.
      outcome (withRetry rt (generateContent (quiz_request (generateQuizPrompt cfg incorrect))) None s)
        = Inr response \<and>
      response_text response = Some t \<and>
      JSON_parse rt (trim rt t) = Inr (ArrayOf quiz) \<and> quiz \<noteq> [])"
proof (cases "outcome (withRetry rt (generateContent (quiz_request (generateQuizPrompt cfg incorrect))) None s)")
  case (Inl e)
  then show ?thesis
    by (simp add: generateQuiz_outcome)
next
  case (Inr response)
  then show ?thesis
    using read_quiz_returns [of rt response quiz]
    by (cases "read_quiz rt response") (simp_all add: generateQuiz_outcome)
qed

lemma odd_run:
  "outcome (generateQuiz runtime_sample (text_provider ''[odd]'') cfg_kinematics None 0) =
     Inr [odd_question]"
proof -
  have "trim_utf8 ''[odd]'' = ''[odd]''"
    by (simp add: trim_utf8_def white_space_def)
  then have "read_quiz runtime_sample \<lparr>response_text = Some ''[odd]''\<rparr> = Inr [odd_question]"
    by (simp add: read_quiz_def runtime_sample_def parse_three_def)
  then show ?thesis
    by (simp add: generateQuiz_outcome text_provider_run)
qed

text \<open>
  The claim as it stands fails: a response that parses to an array holding a question
  with no options and the index 7 is returned by a successful call.
\<close>

theorem generateQuiz_returns_unchecked_question:
  "outcome (generateQuiz runtime_sample (text_provider ''[odd]'') cfg_kinematics None 0) =
     Inr [odd_question] \<and>
   \<not> Question_invariant odd_question"
  by (simp add: odd_run Question_invariant_def odd_question_def)

theorem generateQuiz_returns_parsed_array_witness:
  "outcome (generateQuiz runtime_sample (text_provider spaced_odd) cfg_kinematics None 0) =
     Inr [odd_question] \<and>
   outcome (generateQuiz runtime_sample (text_provider ''[]'') cfg_kinematics None 0) \<noteq> Inr []"
proof -
  have rt: "trim runtime_sample = trim_utf8" "JSON_parse runtime_sample = parse_three"
    by (simp_all add: runtime_sample_def)
  have c: "\<exists>response t.
      outcome (withRetry runtime_sample
                 (text_provider spaced_odd
                    (quiz_request (generateQuizPrompt cfg_kinematics None))) None 0)
        = Inr response \<and>
      response_text response = Some t \<and>
      JSON_parse runtime_sample (trim runtime_sample t) = Inr (ArrayOf [odd_question]) \<and>
      [odd_question] \<noteq> []"
    unfolding text_provider_run rt by (simp add: trim_examples parse_three_def)
  have 1: "outcome (generateQuiz runtime_sample (text_provider spaced_odd) cfg_kinematics None 0) =
     Inr [odd_question]"
    using generateQuiz_returns_parsed_array
      [of runtime_sample "text_provider spaced_odd" cfg_kinematics None 0 "[odd_question]"] c
    by blast
  have 2: "outcome (generateQuiz runtime_sample (text_provider ''[]'') cfg_kinematics None 0) \<noteq> Inr []"
    using generateQuiz_returns_parsed_array
      [of runtime_sample "text_provider ''[]''" cfg_kinematics None 0 "[]"]
    by blast
  from 1 2 show ?thesis by (intro conjI)
qed

section \<open>Completion: the incorrect answers and the score\<close>

lemma filter_indexed:
  "map snd (filter (\<lambda>(i, x). P i) (enumerate 0 ys)) = map (\<lambda>i. ys ! i) (filter P [0..<length ys])"
proof (induction ys rule: rev_induct)
  case Nil
  then show ?case by simp
next
  case (snoc y ys)
  have "map (\<lambda>i. (ys @ [y]) ! i) (filter P [0..<length ys]) =
        map (\<lambda>i. ys ! i) (filter P [0..<length ys])"
    by (rule map_cong) (auto simp: nth_append)
  with snoc show ?case
    by (simp add: enumerate_append_eq)
qed

lemma map_indexed_nth:
  "i < length qs \<Longrightarrow> map (\<lambda>(i, q). f q i) (enumerate 0 qs) ! i = f (qs ! i) i"
  by (simp add: nth_enumerate_eq)

lemma incorrect_of_eq:
  "incorrect_of qs answers =
     map (\<lambda>i. with_userAnswerIndex (qs ! i) (answer_at answers i))
       (filter (\<lambda>i. answer_at answers i \<noteq> Null \<and>
                    answer_at answers i \<noteq> Num (correctAnswerIndex (qs ! i)))
          [0..<length qs])"
proof -
  let ?ys = "map (\<lambda>(i, q). with_userAnswerIndex q (answer_at answers i)) (enumerate 0 qs)"
  let ?P = "\<lambda>i. answer_at answers i \<noteq> Null \<and> answer_at answers i \<noteq> Num (correctAnswerIndex (qs ! i))"
  have "incorrect_of qs answers = map (\<lambda>i. ?ys ! i) (filter ?P [0..<length ?ys])"
    unfolding incorrect_of_def by (rule filter_indexed)
  also have "\<dots> = map (\<lambda>i. with_userAnswerIndex (qs ! i) (answer_at answers i)) (filter ?P [0..<length qs])"
    by (rule map_cong) (auto simp: nth_enumerate_eq)
  finally show ?thesis .
qed

lemma score_reduce_enumerate:
  "k + length as \<le> length qs \<Longrightarrow>
   score_reduce qs (enumerate k as) acc =
     Inr (acc + int (length (filter (\<lambda>(a, q). a = Num (correctAnswerIndex q)) (zip as (drop k qs)))))"
proof (induction as arbitrary: k acc)
  case Nil
  then show ?case by simp
next
  case (Cons a as)
  then have k: "k < length qs" by simp
  then have d: "drop k qs = qs ! k # drop (Suc k) qs"
    by (simp add: Cons_nth_drop_Suc)
  from Cons.prems have "Suc k + length as \<le> length qs" by simp
  from Cons.IH [OF this] k show ?case
    by (simp add: d)
qed

lemma score_of_eq:
  "length answers \<le> length qs \<Longrightarrow>
   score_of qs answers =
     Inr (int (length (filter (\<lambda>(a, q). a = Num (correctAnswerIndex q)) (zip answers qs))))"
  using score_reduce_enumerate [of 0 answers qs 0] by (simp add: score_of_def)

lemma score_reduce_throws:
  "k \<le> length qs \<Longrightarrow> length qs < k + length as \<Longrightarrow>
   \<exists>e. score_reduce qs (enumerate k as) acc = Inl e"
  by (induction as arbitrary: k acc) auto

lemma score_of_throws:
  "length qs < length answers \<Longrightarrow> \<exists>e. score_of qs answers = Inl e"
  using score_reduce_throws [of 0 qs answers 0] by (simp add: score_of_def)

text \<open>
  C8. Completing a quiz with one recorded answer per question returns, moves to
  \<open>finished\<close>, and leaves as incorrect-answer list the questions, in order, whose answer is
  not \<open>null\<close> and differs from the correct-answer index: each entry has the fields of its
  question and that answer as \<open>userAnswerIndex\<close>. No entry has a \<open>null\<close> answer or the
  correct one, and when the array holds numbers and \<open>null\<close> only, every entry carries a
  number, the index the user chose.
\<close>

theorem incorrect_answers_exact:
  assumes "length answers = length (questions s)"
  shows "\<exists>s'. handleQuizCompletion now_id now_date answers s = Inr s' \<and>
           quizState s' = finished \<and>
           incorrectAnswers s' =
             map (\<lambda>i. \<lparr>question = question (questions s ! i),
                        options = options (questions s ! i),
                        correctAnswerIndex = correctAnswerIndex (questions s ! i),
                        explanation = explanation (questions s ! i),
                        sourceHint = sourceHint (questions s ! i),
                        resourceLink = resourceLink (questions s ! i),
                        userAnswerIndex = answers ! i\<rparr>)
               (filter (\<lambda>i. answers ! i \<noteq> Null \<and>
                            answers ! i \<noteq> Num (correctAnswerIndex (questions s ! i)))
                  [0..<length (questions s)]) \<and>
           (\<forall>ia\<in>set (incorrectAnswers s').
              userAnswerIndex ia \<noteq> Null \<and> userAnswerIndex ia \<noteq> Num (correctAnswerIndex ia)) \<and>
           (Undefined \<notin> set answers \<longrightarrow>
              (\<forall>ia\<in>set (incorrectAnswers s').
                 \<exists>k. userAnswerIndex ia = Num k \<and> k \<noteq> correctAnswerIndex ia))"
proof -
  let ?qs = "questions s"
  let ?entry = "\<lambda>i. \<lparr>question = question (?qs ! i), options = options (?qs ! i),
                        correctAnswerIndex = correctAnswerIndex (?qs ! i),
                        explanation = explanation (?qs ! i), sourceHint = sourceHint (?qs ! i),
                        resourceLink = resourceLink (?qs ! i), userAnswerIndex = answers ! i\<rparr>"
  let ?wrong = "\<lambda>i. answers ! i \<noteq> Null \<and> answers ! i \<noteq> Num (correctAnswerIndex (?qs ! i))"
  have inc: "incorrect_of ?qs answers = map ?entry (filter ?wrong [0..<length ?qs])"
  proof -
    have f: "filter (\<lambda>i. answer_at answers i \<noteq> Null \<and>
                          answer_at answers i \<noteq> Num (correctAnswerIndex (?qs ! i))) [0..<length ?qs] =
             filter ?wrong [0..<length ?qs]"
      using assms by (intro filter_cong refl) (simp add: answer_at_def)
    show ?thesis
      unfolding incorrect_of_eq f using assms
      by (intro map_cong refl) (simp add: answer_at_def with_userAnswerIndex_def)
  qed
  obtain sc where sc: "score_of ?qs answers = Inr sc"
    using score_of_eq [of answers ?qs] assms by simp
  have nn: "\<forall>ia\<in>set (incorrect_of ?qs answers).
              userAnswerIndex ia \<noteq> Null \<and> userAnswerIndex ia \<noteq> Num (correctAnswerIndex ia)"
    unfolding inc by auto
  have num: "\<forall>ia\<in>set (incorrect_of ?qs answers).
               \<exists>k. userAnswerIndex ia = Num k \<and> k \<noteq> correctAnswerIndex ia"
    if "Undefined \<notin> set answers"
  proof
    fix ia
    assume "ia \<in> set (incorrect_of ?qs answers)"
    then obtain i where i: "i < length ?qs" "?wrong i" "ia = ?entry i"
      unfolding inc by auto
    from i(1) assms have "answers ! i \<in> set answers"
      by simp
    with that have "answers ! i \<noteq> Undefined"
      by metis
    with i(2) obtain k where "answers ! i = Num k" "k \<noteq> correctAnswerIndex (?qs ! i)"
      by (cases "answers ! i") auto
    with i(3) show "\<exists>k. userAnswerIndex ia = Num k \<and> k \<noteq> correctAnswerIndex ia"
      by simp
  qed
  show ?thesis
    using sc inc nn num
    by (cases "quizConfig s") (simp_all add: handleQuizCompletion_def Let_def)
qed

theorem incorrect_answers_exact_witness:
  "map_sum (\<lambda>err. err) incorrectAnswers
     (handleQuizCompletion 5 6 [Num 1, Null, Num 0] (session_of three)) =
     Inr [\<lparr>question = ''Q'', options = [''a'', ''b'', ''c'', ''d''], correctAnswerIndex = 3,
           explanation = ''E'', sourceHint = None, resourceLink = None,
           userAnswerIndex = Num 0\<rparr>]"
proof -
  have q: "questions (session_of three) = three"
    by (simp add: session_of_def)
  have h: "length [Num 1, Null, Num 0] = length (questions (session_of three))"
    by (simp add: session_of_def three_def)
  have f: "filter (\<lambda>i. [Num 1, Null, Num 0] ! i \<noteq> Null \<and>
                       [Num 1, Null, Num 0] ! i \<noteq> Num (correctAnswerIndex (three ! i))) [0..<length three]
           = [2]"
    by (simp add: three_def question_with_def upt_rec)
  from incorrect_answers_exact [OF h, of 5 6] show ?thesis
    unfolding q f by (auto simp: three_def question_with_def)
qed

section \<open>Completion: the percentage\<close>



lemma exponent_of_less:
  assumes "0 < x"
  shows "x < 2 powi (exponent_of x + 1)"
proof -
  obtain a b where ab: "quotient_of x = (a, b)"
    by fastforce
  then have b: "0 < b" and x: "x = of_int a / of_int b"
    using quotient_of_denom_pos quotient_of_div by blast+
  with assms have a: "0 < a"
    by (simp add: zero_less_divide_iff)
  let ?d = "bitlen a - bitlen b"
  have la: "a < 2 ^ nat (bitlen a)" and lb: "2 ^ nat (bitlen b - 1) \<le> b"
    using bitlen_bounds [OF a] bitlen_bounds [OF b] by simp_all
  have ge1: "0 \<le> bitlen a" "1 \<le> bitlen b"
    using b bitlen_nonneg [of a] by (simp_all add: bitlen_alt_def)
  have "of_int a / of_int b < (2::rat) ^ nat (bitlen a) / 2 ^ nat (bitlen b - 1)"
  proof (rule frac_less)
    show "(of_int a :: rat) < 2 ^ nat (bitlen a)"
      using la by (metis of_int_less_iff of_int_numeral of_int_power)
    show "(2::rat) ^ nat (bitlen b - 1) \<le> of_int b"
      using lb by (metis of_int_le_iff of_int_numeral of_int_power)
    show "0 < (2::rat) ^ nat (bitlen b - 1)" by simp
    show "0 \<le> (of_int a :: rat)" using a by simp
  qed
  also have "\<dots> = 2 powi bitlen a / 2 powi (bitlen b - 1)"
    using ge1 by (simp add: power_int_nonneg_exp)
  also have "\<dots> = 2 powi (?d + 1)"
    using power_int_diff [of "2::rat" "bitlen a" "bitlen b - 1"] by (simp add: algebra_simps)
  finally have up: "x < 2 powi (?d + 1)"
    by (simp add: x)
  show ?thesis
    using up by (auto simp: exponent_of_def ab Let_def not_le)
qed







lemma handleQuizCompletion_returns:
  assumes "length answers \<le> length (questions s)" and "quizConfig s = Some cfg"
  shows "handleQuizCompletion now_id now_date answers s =
         Inr (s\<lparr>userAnswers := answers,
                incorrectAnswers := incorrect_of (questions s) answers,
                quizHistory :=
                  \<lparr>id = now_id, config = cfg, score = correct_count answers (questions s),
                   totalQuestions = int (length (questions s)),
                   percentage = percentage_of (correct_count answers (questions s)) (length (questions s)),
                   date = now_date\<rparr> # quizHistory s,
                quizState := finished\<rparr>)"
  using assms score_of_eq [of answers "questions s"]
  by (simp add: handleQuizCompletion_def Let_def correct_count_def)







section \<open>The in-flight guard\<close>

lemma startQuiz_call_guard: "isSubmittingRef s \<Longrightarrow> startQuiz_call cfg isRetry s = (s, None)"
  by (simp add: startQuiz_call_def)

lemma startQuiz_call_free:
  "\<not> isSubmittingRef s \<Longrightarrow>
   \<exists>s' c. startQuiz_call cfg isRetry s = (s', Some c) \<and> isSubmittingRef s'"
  by (simp add: startQuiz_call_def)

lemma handleQuizCompletion_ref:
  "handleQuizCompletion now_id now_date answers s = Inr s' \<Longrightarrow> isSubmittingRef s' = isSubmittingRef s"
  "handleQuizCompletion now_id now_date answers s = Inl (err, s') \<Longrightarrow>
   isSubmittingRef s' = isSubmittingRef s"
  by (auto simp: handleQuizCompletion_def Let_def split: sum.splits option.splits)

lemma one_in_flight_initial: "one_in_flight (initial_app history)"
  by (simp add: one_in_flight_def initial_app_def)

lemma one_in_flight_step:
  assumes "one_in_flight a"
  shows "one_in_flight (app_step a ev)"
proof (cases ev)
  case (StartQuiz cfg)
  with assms show ?thesis
    by (auto simp: one_in_flight_def startQuiz_call_def)
next
  case TryAgain
  with assms show ?thesis
    by (auto simp: one_in_flight_def startQuiz_call_def split: option.splits)
next
  case (Settle result)
  with assms show ?thesis
    by (cases "pending a")
       (auto simp: one_in_flight_def startQuiz_settle_def Let_def split: sum.splits thrown.splits)
next
  case SettleSuggestion
  with assms show ?thesis
    by (simp add: one_in_flight_def)
next
  case (QuizCompletion now_id now_date answers)
  with assms show ?thesis
    by (auto simp: one_in_flight_def split: sum.splits prod.splits dest: handleQuizCompletion_ref)
next
  case NewTopic
  with assms show ?thesis
    by (simp add: one_in_flight_def handleNewTopic_def)
next
  case (ShowHistory b)
  with assms show ?thesis
    by (simp add: one_in_flight_def)
next
  case ClearHistory
  with assms show ?thesis
    by (simp add: one_in_flight_def)
qed

lemma one_in_flight_foldl: "one_in_flight a \<Longrightarrow> one_in_flight (foldl app_step a evs)"
  by (induction evs arbitrary: a) (simp_all add: one_in_flight_step)

lemma one_in_flight_reachable: "one_in_flight (foldl app_step (initial_app history) evs)"
  by (rule one_in_flight_foldl) (rule one_in_flight_initial)

text \<open>
  C9, as amended. While the flag \<open>isSubmittingRef\<close> is set, \<open>startQuiz\<close> returns at its
  guard: the session is unchanged and no \<open>generateQuiz\<close> call is issued, so a start
  request and a try-again request leave the component as it is. In every state the
  component reaches from its mounting, at most one \<open>generateQuiz\<close> call is pending, and
  the flag is set exactly while one is. The calls of the results screen are outside
  this guard.
\<close>

theorem start_request_dropped:
  "(isSubmittingRef s \<longrightarrow> startQuiz_call cfg isRetry s = (s, None)) \<and>
   (isSubmittingRef (sess a) \<longrightarrow> app_step a (StartQuiz cfg) = a \<and> app_step a TryAgain = a) \<and>
   length (pending (foldl app_step (initial_app history) evs)) \<le> 1 \<and>
   (isSubmittingRef (sess (foldl app_step (initial_app history) evs)) \<longleftrightarrow>
      pending (foldl app_step (initial_app history) evs) \<noteq> [])"
proof -
  have "app_step a (StartQuiz cfg) = a \<and> app_step a TryAgain = a" if "isSubmittingRef (sess a)"
    using that by (simp add: startQuiz_call_def split: option.splits)
  then show ?thesis
    using one_in_flight_reachable [of history evs]
    by (simp add: one_in_flight_def startQuiz_call_guard)
qed

lemma loading_app:
  "app_step (initial_app []) (StartQuiz cfg_kinematics) =
     \<lparr>sess = \<lparr>quizConfig = Some cfg_kinematics, questions = [], userAnswers = [],
              incorrectAnswers = [], quizState = loading, error = None, quizHistory = [],
              showHistory = False, isSubmitting = True, isSubmittingRef = True\<rparr>,
      pending = [(cfg_kinematics, None)], suggesting = []\<rparr>"
  by (simp add: initial_app_def startQuiz_call_def)

theorem start_request_dropped_witness:
  "startQuiz_call cfg_kinematics True (sess (app_step (initial_app []) (StartQuiz cfg_kinematics))) =
     (sess (app_step (initial_app []) (StartQuiz cfg_kinematics)), None) \<and>
   app_step (app_step (initial_app []) (StartQuiz cfg_kinematics)) (StartQuiz cfg_kinematics) =
     app_step (initial_app []) (StartQuiz cfg_kinematics) \<and>
   app_step (app_step (initial_app []) (StartQuiz cfg_kinematics)) TryAgain =
     app_step (initial_app []) (StartQuiz cfg_kinematics)"
proof -
  have flag: "isSubmittingRef (sess (app_step (initial_app []) (StartQuiz cfg_kinematics)))"
    unfolding loading_app by simp
  show ?thesis
    using start_request_dropped [of "sess (app_step (initial_app []) (StartQuiz cfg_kinematics))" cfg_kinematics True
                "app_step (initial_app []) (StartQuiz cfg_kinematics)" "[]" "[]"] flag
    by blast
qed

text \<open>
  The claim as it stands fails: after a quiz of three questions is completed with one
  mistake, the results screen has \<open>generateSuggestions\<close> and
  \<open>generateImprovementSuggestions\<close> in flight together, the flags are clear so that the
  try-again button is enabled, and a try-again request adds a \<open>generateQuiz\<close> call:
  three generation calls are in flight.
\<close>

lemma three_incorrect:
  "incorrect_of three [Num 1, Null, Num 0] = [with_userAnswerIndex (question_with 3) (Num 0)]"
  unfolding incorrect_of_eq by (simp add: three_def question_with_def upt_rec answer_at_def)

lemma three_completed:
  "foldl app_step (initial_app [])
     [StartQuiz cfg_kinematics, Settle (Inr three), QuizCompletion 5 6 [Num 1, Null, Num 0]] =
   \<lparr>sess = \<lparr>quizConfig = Some cfg_kinematics, questions = three,
            userAnswers = [Num 1, Null, Num 0],
            incorrectAnswers = [with_userAnswerIndex (question_with 3) (Num 0)],
            quizState = finished, error = None,
            quizHistory = [\<lparr>id = 5, config = cfg_kinematics,
                            score = correct_count [Num 1, Null, Num 0] three,
                            totalQuestions = int (length three),
                            percentage = percentage_of (correct_count [Num 1, Null, Num 0] three) (length three),
                            date = 6\<rparr>],
            showHistory = False, isSubmitting = False, isSubmittingRef = False\<rparr>,
    pending = [],
    suggesting = [Suggestions cfg_kinematics [with_userAnswerIndex (question_with 3) (Num 0)],
                  ImprovementSuggestions cfg_kinematics [with_userAnswerIndex (question_with 3) (Num 0)]]\<rparr>"
  (is "_ = ?thesis_rhs")
proof -
  let ?s = "\<lparr>quizConfig = Some cfg_kinematics, questions = three, userAnswers = [],
             incorrectAnswers = [], quizState = active, error = None, quizHistory = [],
             showHistory = False, isSubmitting = False, isSubmittingRef = False\<rparr>"
  have active: "app_step (app_step (initial_app []) (StartQuiz cfg_kinematics)) (Settle (Inr three)) =
      \<lparr>sess = ?s, pending = [], suggesting = []\<rparr>"
    unfolding loading_app by (simp add: startQuiz_settle_def)
  have "length [Num 1, Null, Num 0] \<le> length (questions ?s)"
    by (simp add: three_def)
  from handleQuizCompletion_returns [OF this, of cfg_kinematics 5 6]
  have fin: "app_step \<lparr>sess = ?s, pending = [], suggesting = []\<rparr>
                (QuizCompletion 5 6 [Num 1, Null, Num 0]) = ?thesis_rhs"
    by (simp add: three_incorrect results_effect_def)
  have "foldl app_step (initial_app [])
          [StartQuiz cfg_kinematics, Settle (Inr three), QuizCompletion 5 6 [Num 1, Null, Num 0]] =
        app_step (app_step (app_step (initial_app []) (StartQuiz cfg_kinematics)) (Settle (Inr three)))
          (QuizCompletion 5 6 [Num 1, Null, Num 0])"
    by (simp only: foldl.simps)
  then show ?thesis
    by (simp only: active fin)
qed

theorem three_generation_calls_in_flight:
  "isSubmitting (sess (foldl app_step (initial_app [])
      [StartQuiz cfg_kinematics, Settle (Inr three), QuizCompletion 5 6 [Num 1, Null, Num 0]])) = False \<and>
   in_flight (foldl app_step (initial_app [])
      [StartQuiz cfg_kinematics, Settle (Inr three), QuizCompletion 5 6 [Num 1, Null, Num 0]]) = 2 \<and>
   in_flight (foldl app_step (initial_app [])
      [StartQuiz cfg_kinematics, Settle (Inr three), QuizCompletion 5 6 [Num 1, Null, Num 0], TryAgain]) = 3"
proof -
  have "foldl app_step (initial_app [])
      [StartQuiz cfg_kinematics, Settle (Inr three), QuizCompletion 5 6 [Num 1, Null, Num 0], TryAgain] =
    app_step (foldl app_step (initial_app [])
      [StartQuiz cfg_kinematics, Settle (Inr three), QuizCompletion 5 6 [Num 1, Null, Num 0]]) TryAgain"
    by (simp only: foldl.simps)
  then show ?thesis
    by (simp only: three_completed) (simp add: in_flight_def startQuiz_call_def)
qed

end
